theory Spec2Isabelle
  imports Complex_Main "HOL-Library.Log_Nat"
begin

section \<open>Python values used by \<open>weather.py\<close>\<close>

text \<open>
  A Python \<open>str\<close> is modelled as a \<open>string\<close> whose characters are single code points
  (U+0000 to U+00FF); the degree sign of the source's f-strings is \<open>CHR 0xB0\<close>.
  An exception is a value of \<open>exn\<close>, and a call that may raise returns \<open>exn + 'a\<close>.

  \<^item> \<open>AttributeError n\<close>: attribute \<open>n\<close> was read from an object that has none of that name
    (\<open>self.root\<close> before any assignment to it, \<open>.text\<close> of \<open>None\<close>);
  \<^item> \<open>TypeError\<close>: \<open>float(None)\<close>, \<open>None + "%"\<close>, \<open>ET.fromstring(None)\<close>;
  \<^item> \<open>ValueError\<close>: \<open>float(s)\<close> for a string that is no float literal;
  \<^item> \<open>ParseError\<close>: \<open>xml.etree.ElementTree.ParseError\<close>;
  \<^item> \<open>RequestException m\<close>: an instance of \<open>requests.exceptions.RequestException\<close> or of one
    of its subclasses (ConnectionError, Timeout, ...), with \<open>str(exp) = m\<close>;
  \<^item> \<open>OtherException c\<close>: an exception of a class \<open>c\<close> outside that hierarchy.
\<close>

datatype exn =
    AttributeError string
  | TypeError
  | ValueError
  | ParseError
  | RequestException string
  | OtherException string

text \<open>The Python class name of an exception, as \<open>type(e).__name__\<close> gives it.\<close>

fun exn_class :: "exn \<Rightarrow> string" where
  "exn_class (AttributeError n) = ''AttributeError''"
| "exn_class TypeError = ''TypeError''"
| "exn_class ValueError = ''ValueError''"
| "exn_class ParseError = ''ParseError''"
| "exn_class (RequestException m) = ''RequestException''"
| "exn_class (OtherException c) = c"

text \<open>
  Statements run in sequence: the first exception ends the method, otherwise the value is
  passed on.
\<close>

definition and_then :: "exn + 'a \<Rightarrow> ('a \<Rightarrow> exn + 'b) \<Rightarrow> exn + 'b" where
  "and_then m f = (case m of Inl e \<Rightarrow> Inl e | Inr v \<Rightarrow> f v)"

subsection \<open>\<open>str\<close> of an \<open>int\<close>\<close>

definition digit_char :: "int \<Rightarrow> char" where
  "digit_char d = char_of (48 + d)"

text \<open>The decimal digits of \<open>n\<close>, for \<open>0 \<le> n\<close>.\<close>

function str_nat :: "int \<Rightarrow> string" where
  "str_nat n = (if n < 10 then [digit_char n] else str_nat (n div 10) @ [digit_char (n mod 10)])"
  by pat_completeness auto
termination
  by (relation "measure nat") auto

declare str_nat.simps [simp del]

definition str_int :: "int \<Rightarrow> string" where
  "str_int i = (if i < 0 then CHR ''-'' # str_nat (- i) else str_nat i)"

subsection \<open>\<open>float\<close>: IEEE 754 binary64\<close>

text \<open>
  A Python \<open>float\<close> is a C \<open>double\<close>. \<open>Finite neg m e\<close> is the double of sign \<open>neg\<close> and
  magnitude \<open>m * 2^e\<close>, in the one form the format has for each value: \<open>0 \<le> m < 2^53\<close>,
  \<open>- 1074 \<le> e \<le> 971\<close>, and \<open>e = - 1074\<close> when \<open>m < 2^52\<close> (zero and the subnormal numbers).
  \<open>Infinity neg\<close> is \<open>inf\<close> or \<open>-inf\<close>. \<open>NaN\<close> stands for every not-a-number: the program
  can only print one and multiply it, and neither shows its sign or payload.
\<close>

datatype pyfloat = Finite bool int int | Infinity bool | NaN

definition pow2 :: "int \<Rightarrow> int" where
  "pow2 k = 2 ^ nat k"

definition pow10 :: "int \<Rightarrow> int" where
  "pow10 k = 10 ^ nat k"

text \<open>\<open>floor_log2 p q\<close> is the integer \<open>l\<close> with \<open>2^l \<le> p / q < 2^(l + 1)\<close>, for positive \<open>p\<close>, \<open>q\<close>.\<close>

definition floor_log2 :: "int \<Rightarrow> int \<Rightarrow> int" where
  "floor_log2 p q =
     (let d = bitlen p - bitlen q
      in if q * pow2 d \<le> p * pow2 (- d) then d else d - 1)"

text \<open>
  Rounding to nearest, ties to even, of the rational \<open>p / q\<close> (\<open>0 \<le> p\<close>, \<open>0 < q\<close>): mantissa and
  exponent of the nearest double, or \<open>None\<close> when the rounded value is \<open>2^1024\<close> or more.
\<close>

definition round_ratio :: "int \<Rightarrow> int \<Rightarrow> (int \<times> int) option" where
  "round_ratio p q =
     (if p = 0 then Some (0, - 1074)
      else
        let e = max (floor_log2 p q - 52) (- 1074);
            num = p * pow2 (- e);
            den = q * pow2 e;
            m0 = num div den;
            r = num mod den;
            m = (if den < 2 * r \<or> (2 * r = den \<and> odd m0) then m0 + 1 else m0);
            e' = (if m = pow2 53 then e + 1 else e);
            m' = (if m = pow2 53 then pow2 52 else m)
        in if 971 < e' then None else Some (m', e'))"

definition float_of_ratio :: "bool \<Rightarrow> int \<Rightarrow> int \<Rightarrow> pyfloat" where
  "float_of_ratio neg p q =
     (case round_ratio p q of None \<Rightarrow> Infinity neg | Some (m, e) \<Rightarrow> Finite neg m e)"

text \<open>The double nearest to \<open>n * 10^k\<close>; a value too large becomes an infinity.\<close>

definition float_of_decimal :: "bool \<Rightarrow> int \<Rightarrow> int \<Rightarrow> pyfloat" where
  "float_of_decimal neg n k = float_of_ratio neg (n * pow10 k) (pow10 (- k))"

subsection \<open>\<open>float(s)\<close> for a string\<close>

text \<open>
  CPython's \<open>PyFloat_FromString\<close>: white space is stripped from both ends (for characters up
  to U+00FF: tab to carriage return, space, U+0085 and U+00A0), an underscore is allowed
  between two digits only, and what is left is a decimal number with an optional sign, an
  optional fraction and an optional exponent, or \<open>inf\<close>, \<open>infinity\<close> or \<open>nan\<close> in any case with
  an optional sign. The value is rounded correctly. \<open>None\<close> is \<open>ValueError\<close>.
\<close>

definition is_space :: "char \<Rightarrow> bool" where
  "is_space c =
     (let n = (of_char c :: int) in (9 \<le> n \<and> n \<le> 13) \<or> n = 32 \<or> n = 133 \<or> n = 160)"

definition strip :: "string \<Rightarrow> string" where
  "strip s = rev (dropWhile is_space (rev (dropWhile is_space s)))"

definition is_digit :: "char \<Rightarrow> bool" where
  "is_digit c = (48 \<le> (of_char c :: int) \<and> (of_char c :: int) \<le> 57)"

fun underscores_ok :: "char \<Rightarrow> string \<Rightarrow> bool" where
  "underscores_ok prev [] = (prev \<noteq> CHR ''_'')"
| "underscores_ok prev (c # cs) =
     (if c = CHR ''_'' then is_digit prev \<and> underscores_ok c cs
      else if prev = CHR ''_'' then is_digit c \<and> underscores_ok c cs
      else underscores_ok c cs)"

definition digits_val :: "string \<Rightarrow> int" where
  "digits_val ds = foldl (\<lambda>a c. 10 * a + (of_char c - 48)) 0 ds"

fun take_sign :: "string \<Rightarrow> bool \<times> string" where
  "take_sign [] = (False, [])"
| "take_sign (c # cs) =
     (if c = CHR ''-'' then (True, cs) else if c = CHR ''+'' then (False, cs) else (False, c # cs))"

definition parse_exponent :: "string \<Rightarrow> int option" where
  "parse_exponent s =
     (case s of
        [] \<Rightarrow> Some 0
      | c # r \<Rightarrow>
          if c = CHR ''e'' \<or> c = CHR ''E'' then
            (let (eneg, r1) = take_sign r
             in if r1 = [] then None
                else if list_all is_digit r1
                then Some (if eneg then - digits_val r1 else digits_val r1)
                else None)
          else None)"

text \<open>Sign, digits \<open>n\<close> and decimal exponent \<open>k\<close> of a number \<open>n * 10^k\<close> that fills the string.\<close>

definition parse_number :: "string \<Rightarrow> (bool \<times> int \<times> int) option" where
  "parse_number s =
     (let (neg, s1) = take_sign s;
          ip = takeWhile is_digit s1;
          s2 = dropWhile is_digit s1;
          fp = (case s2 of [] \<Rightarrow> [] | c # r \<Rightarrow> if c = CHR ''.'' then takeWhile is_digit r else []);
          s3 = (case s2 of [] \<Rightarrow> [] | c # r \<Rightarrow> if c = CHR ''.'' then dropWhile is_digit r else s2)
      in if ip = [] \<and> fp = [] then None
         else (case parse_exponent s3 of
                 None \<Rightarrow> None
               | Some ex \<Rightarrow> Some (neg, digits_val (ip @ fp), ex - int (length fp))))"

definition to_lower :: "char \<Rightarrow> char" where
  "to_lower c =
     (let n = (of_char c :: int) in if 65 \<le> n \<and> n \<le> 90 then char_of (n + 32) else c)"

definition parse_inf_or_nan :: "string \<Rightarrow> pyfloat option" where
  "parse_inf_or_nan s =
     (let (neg, r) = take_sign s; l = map to_lower r
      in if l = ''inf'' \<or> l = ''infinity'' then Some (Infinity neg)
         else if l = ''nan'' then Some NaN
         else None)"

definition float_of_str :: "string \<Rightarrow> pyfloat option" where
  "float_of_str s =
     (let s1 = strip s
      in if underscores_ok (CHR 0x00) s1 then
           (let s2 = filter (\<lambda>c. c \<noteq> CHR ''_'') s1
            in case parse_number s2 of
                 Some (neg, n, k) \<Rightarrow> Some (float_of_decimal neg n k)
               | None \<Rightarrow> parse_inf_or_nan s2)
         else None)"

text \<open>\<open>float(x)\<close> for \<open>x\<close> the \<open>.text\<close> of an element: \<open>None\<close> or a string.\<close>

definition py_float :: "string option \<Rightarrow> exn + pyfloat" where
  "py_float x =
     (case x of
        None \<Rightarrow> Inl TypeError
      | Some s \<Rightarrow> (case float_of_str s of None \<Rightarrow> Inl ValueError | Some v \<Rightarrow> Inr v))"

subsection \<open>\<open>repr\<close> of a float, which is what an f-string field prints\<close>

text \<open>
  \<open>decimal_exponent p q\<close> is the \<open>t\<close> with \<open>10^(t - 1) \<le> p / q < 10^t\<close>, for positive \<open>p\<close>, \<open>q\<close>.
\<close>

function count_up :: "int \<Rightarrow> int \<Rightarrow> int" where
  "count_up p q = (if 0 < q \<and> q \<le> p then 1 + count_up p (10 * q) else 0)"
  by pat_completeness auto
termination
  by (relation "measure (\<lambda>(p, q). nat (p - q + 1))") auto

function count_down :: "int \<Rightarrow> int \<Rightarrow> int" where
  "count_down p q = (if 0 < p \<and> 10 * p < q then count_down (10 * p) q - 1 else 0)"
  by pat_completeness auto
termination
  by (relation "measure (\<lambda>(p, q). nat (q - p))") auto

declare count_up.simps [simp del] count_down.simps [simp del]

definition decimal_exponent :: "int \<Rightarrow> int \<Rightarrow> int" where
  "decimal_exponent p q = (if q \<le> p then count_up p q else count_down p q)"

text \<open>\<open>reads_back m e c k\<close>: the decimal \<open>c * 10^(- k)\<close> rounds to the double \<open>m * 2^e\<close>.\<close>

definition reads_back :: "int \<Rightarrow> int \<Rightarrow> int \<Rightarrow> int \<Rightarrow> bool" where
  "reads_back m e c k = (round_ratio (c * pow10 (- k)) (pow10 k) = Some (m, e))"

text \<open>
  The shortest digit string that reads back as the same double and, among those of that
  length, the one nearest to it (ties to the even digit): with \<open>n\<close> significant digits the
  candidates are the two \<open>n\<close>-digit decimals around the value; 17 digits always suffice.
  The result is the digits as a number and their count \<open>n\<close>.
\<close>

function shortest :: "int \<Rightarrow> int \<Rightarrow> int \<Rightarrow> int \<Rightarrow> int \<times> int" where
  "shortest m e t n =
     (let k = n - t;
          sp = m * pow2 e * pow10 k;
          sq = pow2 (- e) * pow10 (- k);
          lo = sp div sq;
          r = sp mod sq;
          nearest = (if 2 * r < sq \<or> (2 * r = sq \<and> even lo) then lo else lo + 1)
      in if reads_back m e lo k \<and> reads_back m e (lo + 1) k then (nearest, n)
         else if reads_back m e lo k then (lo, n)
         else if reads_back m e (lo + 1) k then (lo + 1, n)
         else if 17 \<le> n then (nearest, n)
         else shortest m e t (n + 1))"
  by pat_completeness auto
termination
  by (relation "measure (\<lambda>(m, e, t, n). nat (17 - n))") auto

declare shortest.simps [simp del]

definition strip_zeros :: "string \<Rightarrow> string" where
  "strip_zeros ds = rev (dropWhile (\<lambda>c. c = CHR ''0'') (rev ds))"

definition pad2 :: "string \<Rightarrow> string" where
  "pad2 s = (if length s < 2 then CHR ''0'' # s else s)"

text \<open>
  The layout of \<open>repr\<close>: for digits \<open>ds\<close> and a value \<open>0.ds * 10^decpt\<close>, scientific notation when
  \<open>decpt \<le> - 4\<close> or \<open>16 < decpt\<close> (an exponent of two digits at least), else positional notation
  with \<open>.0\<close> added to a whole number.
\<close>

definition format_repr :: "string \<Rightarrow> int \<Rightarrow> string" where
  "format_repr ds decpt =
     (if decpt \<le> - 4 \<or> 16 < decpt then
        take 1 ds @ (if 1 < length ds then CHR ''.'' # drop 1 ds else [])
        @ [CHR ''e'', if decpt - 1 < 0 then CHR ''-'' else CHR ''+'']
        @ pad2 (str_nat \<bar>decpt - 1\<bar>)
      else if decpt \<le> 0 then ''0.'' @ replicate (nat (- decpt)) (CHR ''0'') @ ds
      else if int (length ds) \<le> decpt then
        ds @ replicate (nat decpt - length ds) (CHR ''0'') @ ''.0''
      else take (nat decpt) ds @ CHR ''.'' # drop (nat decpt) ds)"

definition float_repr :: "pyfloat \<Rightarrow> string" where
  "float_repr x =
     (case x of
        NaN \<Rightarrow> ''nan''
      | Infinity neg \<Rightarrow> (if neg then ''-inf'' else ''inf'')
      | Finite neg m e \<Rightarrow>
          (if neg then ''-'' else [])
          @ (if m = 0 then ''0.0''
             else
               let t = decimal_exponent (m * pow2 e) (pow2 (- e));
                   (c, n) = shortest m e t 1;
                   ds = str_nat c
               in format_repr (strip_zeros ds) (t + int (length ds) - n)))"

subsection \<open>Multiplication of floats\<close>

text \<open>The exact product, rounded to nearest; IEEE 754 for infinities, zeros and NaN.\<close>

fun float_mul :: "pyfloat \<Rightarrow> pyfloat \<Rightarrow> pyfloat" where
  "float_mul NaN y = NaN"
| "float_mul x NaN = NaN"
| "float_mul (Infinity a) (Infinity b) = Infinity (a \<noteq> b)"
| "float_mul (Infinity a) (Finite b m e) = (if m = 0 then NaN else Infinity (a \<noteq> b))"
| "float_mul (Finite a m e) (Infinity b) = (if m = 0 then NaN else Infinity (a \<noteq> b))"
| "float_mul (Finite a m1 e1) (Finite b m2 e2) =
     float_of_ratio (a \<noteq> b) (m1 * m2 * pow2 (e1 + e2)) (pow2 (- (e1 + e2)))"

text \<open>The real number a finite float stands for (0 for the others).\<close>

definition valof :: "pyfloat \<Rightarrow> real" where
  "valof x =
     (case x of
        Finite neg m e \<Rightarrow> (if neg then - 1 else 1) * real_of_int m * 2 powi e
      | Infinity neg \<Rightarrow> 0
      | NaN \<Rightarrow> 0)"

definition is_finite :: "pyfloat \<Rightarrow> bool" where
  "is_finite x = (case x of Finite neg m e \<Rightarrow> True | Infinity neg \<Rightarrow> False | NaN \<Rightarrow> False)"

section \<open>The parsed tree: \<open>xml.etree.ElementTree.Element\<close>\<close>

text \<open>
  An element has a tag, attributes, a text \<open>el_text\<close> (\<open>None\<close> when the element has no
  character data before its first child, as in \<open><a/>\<close>), a tail and children.
\<close>

datatype element =
  Element (tag: string) (attrib: "(string \<times> string) list") (el_text: "string option")
    (tail: "string option") (children: "element list")

text \<open>
  \<open>Element.find(path)\<close> for a path that is a plain tag name: the first direct child with
  that tag, or \<open>None\<close>.
\<close>

definition find_el :: "element \<Rightarrow> string \<Rightarrow> element option" where
  "find_el e path = List.find (\<lambda>c. tag c = path) (children e)"

section \<open>The environment: network and XML parser\<close>

text \<open>
  What \<open>requests.get(url, timeout=1000)\<close> does is the network's choice: it returns a response
  with a status code and a text, or raises.
\<close>

datatype http_outcome = Response (status_code: int) (response_text: string) | Raises exn

text \<open>
  \<open>requests_get\<close> is the outcome of a GET for each URL at the time of the call;
  \<open>ET_fromstring\<close> is \<open>ET.fromstring\<close> on a \<open>str\<close>: the root element, or \<open>None\<close> where the
  library raises \<open>ParseError\<close> because the text is not well-formed XML.
\<close>

record env =
  requests_get :: "string \<Rightarrow> http_outcome"
  ET_fromstring :: "string \<Rightarrow> element option"

text \<open>
  The effects outside the object: the lines printed to standard output and the URLs for which
  a GET was issued, both in order.
\<close>

record world =
  stdout :: "string list"
  requested :: "string list"

fun join :: "string \<Rightarrow> string list \<Rightarrow> string" where
  "join sep [] = []"
| "join sep [x] = x"
| "join sep (x # y # ys) = x @ sep @ join sep (y # ys)"

text \<open>\<open>print(a, b, ...)\<close> writes one line: the arguments, already strings, joined by a space.\<close>

definition print :: "string list \<Rightarrow> world \<Rightarrow> world" where
  "print args wld = wld\<lparr>stdout := stdout wld @ [join '' '' args]\<rparr>"

section \<open>The class \<open>Weather\<close>\<close>

text \<open>
  The instance attributes; \<open>u_location\<close> is the source's \<open>_location\<close>. \<open>root\<close> is \<open>None\<close>
  while the attribute does not exist (no \<open>set_location\<close> has reached its last line yet); it is
  never Python's \<open>None\<close>. The other three hold Python's \<open>None\<close> or a \<open>str\<close>.
\<close>

record Weather =
  u_location :: "string option"
  weather_observation_url :: "string option"
  weather_observation_raw :: "string option"
  root :: "element option"

definition read_weather_observation ::
  "env \<Rightarrow> string \<Rightarrow> world \<Rightarrow> (exn + string option) \<times> world" where
  "read_weather_observation ev url wld =
     (let wld1 = wld\<lparr>requested := requested wld @ [url]\<rparr> in
      case requests_get ev url of
        Response status body \<Rightarrow>
          if status = 200 then (Inr (Some body), wld1)
          else (Inr None, print [''Failed to retrieve data. Status code:'', str_int status] wld1)
      | Raises (RequestException m) \<Rightarrow> (Inr None, print [''An error occurred:'', m] wld1)
      | Raises e \<Rightarrow> (Inl e, wld1))"

definition station_url :: "string \<Rightarrow> string" where
  "station_url loc = ''https://w1.weather.gov/xml/current_obs/'' @ loc @ ''.xml''"

text \<open>
  \<open>set_location\<close> assigns its attributes one after the other; an exception leaves the
  assignments made so far in place. The result is the exception or \<open>()\<close>, the object and the
  world after the call.
\<close>

definition set_location ::
  "env \<Rightarrow> string \<Rightarrow> Weather \<times> world \<Rightarrow> (exn + unit) \<times> Weather \<times> world" where
  "set_location ev observation_location s =
     (let w1 = (fst s)\<lparr>u_location := Some observation_location\<rparr>;
          w2 = w1\<lparr>weather_observation_url := Some (station_url observation_location)\<rparr>
      in case read_weather_observation ev (station_url observation_location) (snd s) of
           (Inl e, wld') \<Rightarrow> (Inl e, w2, wld')
         | (Inr raw, wld') \<Rightarrow>
             (let w3 = w2\<lparr>weather_observation_raw := raw\<rparr> in
              case raw of
                None \<Rightarrow> (Inl TypeError, w3, wld')
              | Some txt \<Rightarrow>
                  (case ET_fromstring ev txt of
                     None \<Rightarrow> (Inl ParseError, w3, wld')
                   | Some el \<Rightarrow> (Inr (), w3\<lparr>root := Some el\<rparr>, wld'))))"

text \<open>
  \<open>fresh\<close> is the object \<open>__init__\<close> starts from, which has no attribute yet. With a falsy
  argument (\<open>None\<close> or the empty string) three attributes are set to \<open>None\<close> and \<open>root\<close> stays
  absent. When \<open>set_location\<close> raises inside \<open>__init__\<close>, no object is returned.
\<close>

definition fresh :: Weather where
  "fresh = \<lparr>u_location = None, weather_observation_url = None,
            weather_observation_raw = None, root = None\<rparr>"

definition Weather_init ::
  "env \<Rightarrow> string option \<Rightarrow> world \<Rightarrow> (exn + Weather) \<times> world" where
  "Weather_init ev observation_location wld =
     (let unbound = fresh\<lparr>u_location := None, weather_observation_url := None,
            weather_observation_raw := None\<rparr>
      in case observation_location of
        None \<Rightarrow> (Inr unbound, wld)
      | Some loc \<Rightarrow>
          if loc = [] then (Inr unbound, wld)
          else (case set_location ev loc (fresh, wld) of
                  (Inl e, w, wld') \<Rightarrow> (Inl e, wld')
                | (Inr u, w, wld') \<Rightarrow> (Inr w, wld')))"

subsection \<open>The properties\<close>

text \<open>\<open>self.root.find(name).text\<close>: the text of the first child called \<open>name\<close>.\<close>

definition field_text :: "Weather \<Rightarrow> string \<Rightarrow> exn + string option" where
  "field_text w name =
     (case root w of
        None \<Rightarrow> Inl (AttributeError ''root'')
      | Some r \<Rightarrow>
          (case find_el r name of
             None \<Rightarrow> Inl (AttributeError ''text'')
           | Some el \<Rightarrow> Inr (el_text el)))"

text \<open>\<open>float(self.root.find(name).text)\<close>\<close>

definition field_float :: "Weather \<Rightarrow> string \<Rightarrow> exn + pyfloat" where
  "field_float w name = and_then (field_text w name) py_float"

definition degree :: string where
  "degree = [CHR 0xB0]"

definition get_location :: "Weather \<Rightarrow> exn + string option" where
  "get_location w = field_text w ''location''"

definition temperature :: "Weather \<Rightarrow> exn + string" where
  "temperature w =
     and_then (field_float w ''temp_f'') (\<lambda>temp_f.
     and_then (field_float w ''temp_c'') (\<lambda>temp_c.
     Inr (float_repr temp_f @ degree @ ''F ('' @ float_repr temp_c @ degree @ ''C)'')))"

definition relative_humidity :: "Weather \<Rightarrow> exn + string" where
  "relative_humidity w =
     and_then (field_text w ''relative_humidity'') (\<lambda>t.
     case t of None \<Rightarrow> Inl TypeError | Some s \<Rightarrow> Inr (s @ ''%''))"

definition weather :: "Weather \<Rightarrow> exn + string option" where
  "weather w = field_text w ''weather''"

definition wind_info :: "Weather \<Rightarrow> exn + string option" where
  "wind_info w = field_text w ''wind_string''"

definition dewpoint :: "Weather \<Rightarrow> exn + string" where
  "dewpoint w =
     and_then (field_float w ''dewpoint_c'') (\<lambda>dewpoint_c.
     and_then (field_float w ''dewpoint_f'') (\<lambda>dewpoint_f.
     Inr (float_repr dewpoint_c @ degree @ ''C ('' @ float_repr dewpoint_f @ degree @ ''F)'')))"

definition pressure :: "Weather \<Rightarrow> exn + string" where
  "pressure w =
     and_then (field_float w ''pressure_mb'') (\<lambda>pressure_mb.
     Inr (float_repr pressure_mb @ '' mb''))"

definition altimeter :: "Weather \<Rightarrow> exn + string" where
  "altimeter w =
     and_then (field_float w ''pressure_in'') (\<lambda>altimeter_in.
     Inr (float_repr altimeter_in @ '' in Hg''))"

text \<open>The float the literal \<open>1.609344\<close> denotes.\<close>

definition mile_km :: pyfloat where
  "mile_km = float_of_decimal False 1609344 (- 6)"

definition visibility :: "Weather \<Rightarrow> exn + string" where
  "visibility w =
     and_then (field_float w ''visibility_mi'') (\<lambda>visibility_mi.
     let visibility_km = float_mul visibility_mi mile_km
     in Inr (float_repr visibility_mi @ '' mi ('' @ float_repr visibility_km @ '' km)''))"

text \<open>What an f-string prints for a value that is \<open>None\<close> or a string.\<close>

definition py_format :: "string option \<Rightarrow> string" where
  "py_format v = (case v of None \<Rightarrow> ''None'' | Some s \<Rightarrow> s)"

definition newline :: string where
  "newline = [CHR 0x0A]"

text \<open>\<open>__str__\<close>: the fields are evaluated in the order they stand in the f-string.\<close>

definition Weather_str :: "Weather \<Rightarrow> exn + string" where
  "Weather_str w =
     and_then (get_location w) (\<lambda>loc.
     and_then (weather w) (\<lambda>wea.
     and_then (temperature w) (\<lambda>tem.
     and_then (dewpoint w) (\<lambda>dew.
     and_then (relative_humidity w) (\<lambda>hum.
     and_then (wind_info w) (\<lambda>win.
     and_then (visibility w) (\<lambda>vis.
     and_then (pressure w) (\<lambda>pre.
     and_then (altimeter w) (\<lambda>alt.
     Inr (newline
       @ ''        Location: '' @ py_format loc @ newline
       @ ''        Weather: '' @ py_format wea @ newline
       @ ''        Temperature: '' @ tem @ newline
       @ ''        Dewpoint: '' @ dew @ newline
       @ ''        Relative Humidity: '' @ hum @ newline
       @ ''        Wind: '' @ py_format win @ newline
       @ ''        Visibility: '' @ vis @ newline
       @ ''        Pressure: '' @ pre @ newline
       @ ''        Altimeter: '' @ alt @ newline
       @ ''        ''))))))))))"

subsection \<open>Calls from outside\<close>

text \<open>
  The read-only members of the class, and a call of one of them on an object in a world: the
  value returned (or the exception), the object and the world after the call. None of these
  methods assigns an attribute, prints or calls \<open>read_weather_observation\<close>.
\<close>

datatype accessor =
    P_location | P_temperature | P_relative_humidity | P_weather | P_wind_info
  | P_dewpoint | P_pressure | P_altimeter | P_visibility | M_str

fun read_accessor :: "accessor \<Rightarrow> Weather \<Rightarrow> exn + string option" where
  "read_accessor P_location w = get_location w"
| "read_accessor P_temperature w = map_sum id Some (temperature w)"
| "read_accessor P_relative_humidity w = map_sum id Some (relative_humidity w)"
| "read_accessor P_weather w = weather w"
| "read_accessor P_wind_info w = wind_info w"
| "read_accessor P_dewpoint w = map_sum id Some (dewpoint w)"
| "read_accessor P_pressure w = map_sum id Some (pressure w)"
| "read_accessor P_altimeter w = map_sum id Some (altimeter w)"
| "read_accessor P_visibility w = map_sum id Some (visibility w)"
| "read_accessor M_str w = map_sum id Some (Weather_str w)"


text \<open>
  A sequence of assignments \<open>w.location = code\<close>, each with the environment of its moment and
  each inside a \<open>try\<close>: the outcomes in order, and the object and the world at the end.
\<close>

fun set_locations ::
  "(env \<times> string) list \<Rightarrow> Weather \<times> world \<Rightarrow> (exn + unit) list \<times> Weather \<times> world" where
  "set_locations [] s = ([], s)"
| "set_locations ((ev, code) # cs) s =
     (case set_location ev code s of
        (r, s') \<Rightarrow> (case set_locations cs s' of (rs, s'') \<Rightarrow> (r # rs, s'')))"

subsection \<open>What the numeric accessors read\<close>

text \<open>
  The elements whose text an accessor passes to \<open>float\<close>, in the order of its statements
  (none for the accessors that do not call \<open>float\<close>).
\<close>

definition numeric_fields :: "accessor \<Rightarrow> string list" where
  "numeric_fields a =
     (case a of
        P_temperature \<Rightarrow> [''temp_f'', ''temp_c'']
      | P_dewpoint \<Rightarrow> [''dewpoint_c'', ''dewpoint_f'']
      | P_pressure \<Rightarrow> [''pressure_mb'']
      | P_altimeter \<Rightarrow> [''pressure_in'']
      | P_visibility \<Rightarrow> [''visibility_mi'']
      | _ \<Rightarrow> [])"

text \<open>
  What is wrong with an element as a number, if anything: it is absent from the tree
  (\<open>AttributeError\<close>), it has no text (\<open>TypeError\<close>), or its text is no float literal
  (\<open>ValueError\<close>). \<open>first_error\<close> is the first such finding in a list of elements.
\<close>

definition field_error :: "element \<Rightarrow> string \<Rightarrow> exn option" where
  "field_error r name =
     (case find_el r name of
        None \<Rightarrow> Some (AttributeError ''text'')
      | Some el \<Rightarrow>
          (case el_text el of
             None \<Rightarrow> Some TypeError
           | Some t \<Rightarrow> (case float_of_str t of None \<Rightarrow> Some ValueError | Some x \<Rightarrow> None)))"

fun first_error :: "element \<Rightarrow> string list \<Rightarrow> exn option" where
  "first_error r [] = None"
| "first_error r (n # ns) =
     (case field_error r n of Some e \<Rightarrow> Some e | None \<Rightarrow> first_error r ns)"

section \<open>Example documents and environments\<close>

text \<open>
  \<open>leaf t s\<close> is the element \<open><t>s</t>\<close> as \<open>ET.fromstring\<close> builds it inside a document
  without white space between its elements.
\<close>

definition leaf :: "string \<Rightarrow> string \<Rightarrow> element" where
  "leaf t s = Element t [] (Some s) None []"

definition klnk_body :: string where
  "klnk_body = ''<current_observation><location>Lincoln Municipal Airport, NE</location>''
     @ ''<weather>Fair</weather><temp_f>72.0</temp_f><temp_c>22.2</temp_c>''
     @ ''<relative_humidity>45</relative_humidity>''
     @ ''<wind_string>South at 10.4 MPH (9 KT)</wind_string>''
     @ ''<pressure_mb>1015.2</pressure_mb><pressure_in>30.01</pressure_in>''
     @ ''<dewpoint_f>49.0</dewpoint_f><dewpoint_c>9.4</dewpoint_c>''
     @ ''<visibility_mi>10.00</visibility_mi></current_observation>''"

definition klnk_doc :: element where
  "klnk_doc = Element ''current_observation'' [] None None
     [leaf ''location'' ''Lincoln Municipal Airport, NE'', leaf ''weather'' ''Fair'',
      leaf ''temp_f'' ''72.0'', leaf ''temp_c'' ''22.2'', leaf ''relative_humidity'' ''45'',
      leaf ''wind_string'' ''South at 10.4 MPH (9 KT)'', leaf ''pressure_mb'' ''1015.2'',
      leaf ''pressure_in'' ''30.01'', leaf ''dewpoint_f'' ''49.0'', leaf ''dewpoint_c'' ''9.4'',
      leaf ''visibility_mi'' ''10.00'']"

text \<open>
  A well-formed document with unusual texts and most elements missing, for a station KODD.
\<close>

definition kodd_body :: string where
  "kodd_body = ''<current_observation><temp_f>72</temp_f><temp_c>22.2</temp_c>''
     @ ''<relative_humidity>abc</relative_humidity><pressure_mb>high</pressure_mb>''
     @ ''<pressure_in/><visibility_mi>1.5e308</visibility_mi></current_observation>''"

definition kodd_doc :: element where
  "kodd_doc = Element ''current_observation'' [] None None
     [leaf ''temp_f'' ''72'', leaf ''temp_c'' ''22.2'', leaf ''relative_humidity'' ''abc'',
      leaf ''pressure_mb'' ''high'', Element ''pressure_in'' [] None None [],
      leaf ''visibility_mi'' ''1.5e308'']"

text \<open>
  An environment whose network is \<open>net\<close> and whose parser is \<open>ET.fromstring\<close> on the bodies
  used here: the two documents above, and texts that are not XML.
\<close>

definition example_env :: "(string \<Rightarrow> http_outcome) \<Rightarrow> env" where
  "example_env net =
     \<lparr>requests_get = net,
      ET_fromstring = (\<lambda>s. if s = klnk_body then Some klnk_doc
                           else if s = kodd_body then Some kodd_doc else None)\<rparr>"

definition serves :: "int \<Rightarrow> string \<Rightarrow> string \<Rightarrow> http_outcome" where
  "serves status body url = Response status body"

definition quiet :: world where
  "quiet = \<lparr>stdout = [], requested = []\<rparr>"

text \<open>An object bound to KLNK, and one bound to KODD.\<close>

definition klnk :: Weather where
  "klnk = \<lparr>u_location = Some ''KLNK'',
           weather_observation_url = Some ''https://w1.weather.gov/xml/current_obs/KLNK.xml'',
           weather_observation_raw = Some klnk_body, root = Some klnk_doc\<rparr>"

definition kodd :: Weather where
  "kodd = \<lparr>u_location = Some ''KODD'',
          weather_observation_url = Some ''https://w1.weather.gov/xml/current_obs/KODD.xml'',
          weather_observation_raw = Some kodd_body, root = Some kodd_doc\<rparr>"

section \<open>Helper facts\<close>

lemma and_then_simps [simp]:
  "and_then (Inl e) f = Inl e"
  "and_then (Inr v) f = f v"
  by (simp_all add: and_then_def)

lemma read_weather_observation_cases:
  "read_weather_observation ev url wld =
     (case requests_get ev url of
        Response status body \<Rightarrow>
          if status = 200 then (Inr (Some body), wld\<lparr>requested := requested wld @ [url]\<rparr>)
          else (Inr None,
                \<lparr>stdout = stdout wld @ [''Failed to retrieve data. Status code: '' @ str_int status],
                 requested = requested wld @ [url]\<rparr>)
      | Raises e \<Rightarrow>
          (case e of
             RequestException m \<Rightarrow>
               (Inr None,
                \<lparr>stdout = stdout wld @ [''An error occurred: '' @ m],
                 requested = requested wld @ [url]\<rparr>)
           | _ \<Rightarrow> (Inl e, wld\<lparr>requested := requested wld @ [url]\<rparr>)))"
  by (simp add: read_weather_observation_def print_def Let_def
      split: http_outcome.split exn.split)

lemma set_location_failed_root:
  "isl (fst (set_location ev code s)) \<longrightarrow>
     root (fst (snd (set_location ev code s))) = root (fst s)"
  by (simp add: set_location_def Let_def split: prod.split sum.split option.split)

lemma set_location_fields:
  "u_location (fst (snd (set_location ev code s))) = Some code
   \<and> weather_observation_url (fst (snd (set_location ev code s))) = Some (station_url code)"
  by (simp add: set_location_def Let_def split: prod.split sum.split option.split)

lemma field_text_root: "root w' = root w \<Longrightarrow> field_text w' name = field_text w name"
  by (simp add: field_text_def)

lemma field_float_root: "root w' = root w \<Longrightarrow> field_float w' name = field_float w name"
  by (simp add: field_float_def field_text_root [of w' w])

lemma read_accessor_root:
  assumes "root w' = root w"
  shows "read_accessor a w' = read_accessor a w"
proof -
  note r = field_text_root [OF assms] field_float_root [OF assms]
  have 1: "get_location w' = get_location w" by (simp add: get_location_def r)
  have 2: "temperature w' = temperature w" by (simp add: temperature_def r)
  have 3: "relative_humidity w' = relative_humidity w" by (simp add: relative_humidity_def r)
  have 4: "weather w' = weather w" by (simp add: weather_def r)
  have 5: "wind_info w' = wind_info w" by (simp add: wind_info_def r)
  have 6: "dewpoint w' = dewpoint w" by (simp add: dewpoint_def r)
  have 7: "pressure w' = pressure w" by (simp add: pressure_def r)
  have 8: "altimeter w' = altimeter w" by (simp add: altimeter_def r)
  have 9: "visibility w' = visibility w" by (simp add: visibility_def r)
  have 10: "Weather_str w' = Weather_str w"
    unfolding Weather_str_def 1 2 3 4 5 6 7 8 9 ..
  show ?thesis
    by (cases a) (simp_all add: 1 2 3 4 5 6 7 8 9 10)
qed

lemma klnk_bound:
  "Weather_init (example_env (serves 200 klnk_body)) (Some ''KLNK'') quiet =
     (Inr klnk, quiet\<lparr>requested := [''https://w1.weather.gov/xml/current_obs/KLNK.xml'']\<rparr>)"
  by code_simp

lemma kodd_bound:
  "Weather_init (example_env (serves 200 kodd_body)) (Some ''KODD'') quiet =
     (Inr kodd, quiet\<lparr>requested := [''https://w1.weather.gov/xml/current_obs/KODD.xml'']\<rparr>)"
  by code_simp

lemma bind_example:
  "set_location (example_env (serves 200 klnk_body)) ''KLNK'' (fresh, quiet) =
     (Inr (), klnk, quiet\<lparr>requested := [''https://w1.weather.gov/xml/current_obs/KLNK.xml'']\<rparr>)"
  by code_simp

lemma failed_bind_example:
  "set_location (example_env (serves 404 ''Not Found'')) ''KOMA'' (klnk, quiet) =
     (Inl TypeError,
      klnk\<lparr>u_location := Some ''KOMA'',
           weather_observation_url := Some ''https://w1.weather.gov/xml/current_obs/KOMA.xml'',
           weather_observation_raw := None\<rparr>,
      \<lparr>stdout = [''Failed to retrieve data. Status code: 404''],
       requested = [''https://w1.weather.gov/xml/current_obs/KOMA.xml'']\<rparr>)"
  by code_simp

lemma set_location_parse_error:
  "requests_get ev (station_url code) = Response 200 body \<and> ET_fromstring ev body = None
   \<longrightarrow> set_location ev code (w, wld) =
     (Inl ParseError,
      w\<lparr>u_location := Some code, weather_observation_url := Some (station_url code),
        weather_observation_raw := Some body\<rparr>,
      wld\<lparr>requested := requested wld @ [station_url code]\<rparr>)"
  by (simp add: set_location_def read_weather_observation_def Let_def)

lemma set_location_fetch_failed:
  "fst (read_weather_observation ev (station_url code) wld) = Inr None
   \<longrightarrow> fst (set_location ev code (w, wld)) = Inl TypeError"
  by (simp add: set_location_def Let_def split: prod.split sum.split option.split)

lemma set_locations_failed_root:
  "list_all isl (fst (set_locations cs s)) \<longrightarrow>
     root (fst (snd (set_locations cs s))) = root (fst s)"
proof (induction cs arbitrary: s)
  case Nil
  show ?case by simp
next
  case (Cons c cs)
  obtain ev code where c: "c = (ev, code)"
    by (cases c)
  obtain r s' where 1: "set_location ev code s = (r, s')"
    by (cases "set_location ev code s")
  obtain rs s'' where 2: "set_locations cs s' = (rs, s'')"
    by (cases "set_locations cs s'")
  have 3: "set_locations (c # cs) s = (r # rs, s'')"
    using c 1 2 by simp
  show ?case
  proof
    assume "list_all isl (fst (set_locations (c # cs) s))"
    then have r: "isl r" and rs: "list_all isl rs"
      using 3 by simp_all
    from r have "root (fst s') = root (fst s)"
      using set_location_failed_root [of ev code s] 1 by simp
    moreover have "root (fst s'') = root (fst s')"
      using Cons.IH [of s'] 2 rs by simp
    ultimately show "root (fst (snd (set_locations (c # cs) s))) = root (fst s)"
      using 3 by simp
  qed
qed

lemma read_accessor_unbound:
  assumes "root w = None"
  shows "read_accessor a w = Inl (AttributeError ''root'')"
proof -
  have t: "\<And>name. field_text w name = Inl (AttributeError ''root'')"
    using assms by (simp add: field_text_def)
  have f: "\<And>name. field_float w name = Inl (AttributeError ''root'')"
    by (simp add: field_float_def t)
  have s: "Weather_str w = Inl (AttributeError ''root'')"
    by (simp add: Weather_str_def get_location_def t)
  show ?thesis
    by (cases a)
      (simp_all add: get_location_def temperature_def relative_humidity_def weather_def
        wind_info_def dewpoint_def pressure_def altimeter_def visibility_def s t f)
qed

lemma field_float_cases:
  "root w = Some r \<Longrightarrow>
   field_float w name =
     (case find_el r name of
        None \<Rightarrow> Inl (AttributeError ''text'')
      | Some el \<Rightarrow>
          (case el_text el of
             None \<Rightarrow> Inl TypeError
           | Some t \<Rightarrow> (case float_of_str t of None \<Rightarrow> Inl ValueError | Some x \<Rightarrow> Inr x)))"
  by (simp add: field_float_def field_text_def py_float_def split: option.split)

lemma field_float_error:
  assumes "root w = Some r"
  shows "field_float w name =
     (case field_error r name of
        Some e \<Rightarrow> Inl e
      | None \<Rightarrow> Inr (the (float_of_str (the (el_text (the (find_el r name)))))))"
  by (simp add: field_float_cases [OF assms] field_error_def split: option.split)

lemma field_float_value:
  assumes "root w = Some r" and "find_el r name = Some el" and "el_text el = Some t"
    and "float_of_str t = Some x"
  shows "field_float w name = Inr x"
  using assms by (simp add: field_float_cases)

lemma float_72: "float_of_str ''72.0'' = Some (Finite False 5066549580791808 (- 46))"
  by code_simp

lemma repr_72: "float_repr (Finite False 5066549580791808 (- 46)) = ''72.0''"
  by code_simp

lemma float_22: "float_of_str ''22.2'' = Some (Finite False 6248744482976563 (- 48))"
  by code_simp

lemma repr_22: "float_repr (Finite False 6248744482976563 (- 48)) = ''22.2''"
  by code_simp

subsection \<open>The error of rounding and of multiplication\<close>

lemma pow2_pos: "0 < pow2 k"
  by (simp add: pow2_def)

lemma pow2_powi: "real_of_int (pow2 k) / real_of_int (pow2 (- k)) = 2 powi k"
proof (cases "0 \<le> k")
  case True
  then show ?thesis
    by (simp add: pow2_def power_int_def)
next
  case False
  then show ?thesis
    by (simp add: pow2_def power_int_def field_simps)
qed

lemma floor_log2_le:
  assumes "0 < p" and "0 < q"
  shows "2 powi (floor_log2 p q) \<le> real_of_int p / real_of_int q"
proof -
  define d where "d = bitlen p - bitlen q"
  show ?thesis
  proof (cases "q * pow2 d \<le> p * pow2 (- d)")
    case True
    then have lg: "floor_log2 p q = d"
      by (simp add: floor_log2_def d_def)
    from True have "real_of_int (q * pow2 d) \<le> real_of_int (p * pow2 (- d))"
      by linarith
    then have "real_of_int (pow2 d) / real_of_int (pow2 (- d)) \<le> real_of_int p / real_of_int q"
      using assms pow2_pos [of d] pow2_pos [of "- d"]
      by (simp add: field_simps)
    then show ?thesis
      by (simp add: lg pow2_powi)
  next
    case False
    then have lg: "floor_log2 p q = d - 1"
      by (simp add: floor_log2_def d_def)
    from bitlen_bounds [OF assms(1)] have 1: "2 ^ nat (bitlen p - 1) \<le> p"
      by simp
    from bitlen_bounds [OF assms(2)] have 2: "q < 2 ^ nat (bitlen q)"
      by simp
    have bp: "1 \<le> bitlen p" and bq: "1 \<le> bitlen q"
      using assms bitlen_eq_zero_iff [of p] bitlen_eq_zero_iff [of q] bitlen_nonneg [of p] bitlen_nonneg [of q]
      by linarith+
    have 3: "(2::real) powi (bitlen p - 1) \<le> real_of_int p"
    proof -
      have "(2::real) powi (bitlen p - 1) = 2 ^ nat (bitlen p - 1)"
        using bp by (simp add: power_int_def)
      also have "\<dots> = real_of_int (2 ^ nat (bitlen p - 1))"
        by simp
      also have "\<dots> \<le> real_of_int p"
        using 1 by linarith
      finally show ?thesis .
    qed
    have 4: "real_of_int q \<le> 2 powi (bitlen q)"
    proof -
      have "real_of_int q \<le> real_of_int (2 ^ nat (bitlen q))"
        using 2 by linarith
      also have "\<dots> = 2 powi (bitlen q)"
        using bq by (simp add: power_int_def)
      finally show ?thesis .
    qed
    have "(2::real) powi (d - 1) = 2 powi (bitlen p - 1) / 2 powi (bitlen q)"
      by (simp add: d_def power_int_diff)
    also have "\<dots> \<le> real_of_int p / 2 powi (bitlen q)"
      using 3 by (simp add: divide_right_mono)
    also have "\<dots> \<le> real_of_int p / real_of_int q"
      using 4 assms by (simp add: divide_left_mono)
    finally show ?thesis
      by (simp add: lg)
  qed
qed

lemma round_ratio_shape:
  assumes "0 < p" and "0 < q"
  shows "\<exists>m1. 0 \<le> m1
    \<and> \<bar>real_of_int m1 * 2 powi (max (floor_log2 p q - 52) (- 1074))
         - real_of_int p / real_of_int q\<bar>
       \<le> 2 powi (max (floor_log2 p q - 52) (- 1074)) / 2
    \<and> round_ratio p q =
        (if 971 < (if m1 = pow2 53 then max (floor_log2 p q - 52) (- 1074) + 1
                   else max (floor_log2 p q - 52) (- 1074))
         then None
         else Some (if m1 = pow2 53 then pow2 52 else m1,
                    if m1 = pow2 53 then max (floor_log2 p q - 52) (- 1074) + 1
                    else max (floor_log2 p q - 52) (- 1074)))"
proof -
  define x where "x = real_of_int p / real_of_int q"
  define e0 where "e0 = max (floor_log2 p q - 52) (- 1074)"
  define num where "num = p * pow2 (- e0)"
  define den where "den = q * pow2 e0"
  define m0 where "m0 = num div den"
  define r where "r = num mod den"
  define m1 where "m1 = (if den < 2 * r \<or> (2 * r = den \<and> odd m0) then m0 + 1 else m0)"
  have pne: "p \<noteq> 0"
    using assms(1) by simp
  have den: "0 < den"
    using assms(2) pow2_pos [of e0] by (simp add: den_def)
  have num: "0 \<le> num"
    using assms(1) pow2_pos [of "- e0"] by (simp add: num_def)
  have rr: "round_ratio p q =
      (if 971 < (if m1 = pow2 53 then e0 + 1 else e0) then None
       else Some (if m1 = pow2 53 then pow2 52 else m1, if m1 = pow2 53 then e0 + 1 else e0))"
    unfolding round_ratio_def Let_def m1_def m0_def r_def num_def den_def e0_def
    using pne by (simp only: if_False)
  have m0: "0 \<le> m0"
    using num den by (simp add: m0_def pos_imp_zdiv_nonneg_iff)
  then have m1: "0 \<le> m1"
    by (simp add: m1_def)
  have r: "0 \<le> r" "r < den" and split: "num = den * m0 + r"
    using den by (simp_all add: r_def m0_def)
  have half: "2 * \<bar>m1 * den - num\<bar> \<le> den"
  proof (cases "den < 2 * r \<or> (2 * r = den \<and> odd m0)")
    case True
    then have "m1 = m0 + 1"
      by (simp add: m1_def)
    then have "m1 * den - num = den - r"
      using split by (simp add: algebra_simps)
    with True r show ?thesis
      by auto
  next
    case False
    then have "m1 = m0"
      by (simp add: m1_def)
    then have "m1 * den - num = - r"
      using split by (simp add: algebra_simps)
    with False r show ?thesis
      by auto
  qed
  have quot: "real_of_int num / real_of_int den = x / 2 powi e0"
  proof -
    have "real_of_int num / real_of_int den
        = x * (real_of_int (pow2 (- e0)) / real_of_int (pow2 (- (- e0))))"
      by (simp add: num_def den_def x_def)
    also have "\<dots> = x * 2 powi (- e0)"
      by (simp only: pow2_powi)
    finally show ?thesis
      by (simp add: power_int_minus field_simps)
  qed
  have u: "(0::real) < 2 powi e0"
    by simp
  have "\<bar>real_of_int m1 - real_of_int num / real_of_int den\<bar> \<le> 1 / 2"
  proof -
    have "real_of_int m1 - real_of_int num / real_of_int den
        = real_of_int (m1 * den - num) / real_of_int den"
      using den by (simp add: field_simps)
    moreover have "\<bar>real_of_int (m1 * den - num) / real_of_int den\<bar> \<le> 1 / 2"
    proof -
      from half have "real_of_int (2 * \<bar>m1 * den - num\<bar>) \<le> real_of_int den"
        by (simp only: of_int_le_iff)
      then have "2 * \<bar>real_of_int (m1 * den - num)\<bar> \<le> real_of_int den"
        by simp
      then show ?thesis
        using den by (simp add: field_simps)
    qed
    ultimately show ?thesis
      by simp
  qed
  then have "\<bar>real_of_int m1 - x / 2 powi e0\<bar> * 2 powi e0 \<le> 1 / 2 * 2 powi e0"
    using u by (simp only: quot mult_right_mono less_imp_le)
  moreover have "\<bar>real_of_int m1 - x / 2 powi e0\<bar> * 2 powi e0 = \<bar>real_of_int m1 * 2 powi e0 - x\<bar>"
  proof -
    have "\<bar>real_of_int m1 - x / 2 powi e0\<bar> * 2 powi e0
        = \<bar>(real_of_int m1 - x / 2 powi e0) * 2 powi e0\<bar>"
      using u by (simp add: abs_mult)
    also have "(real_of_int m1 - x / 2 powi e0) * 2 powi e0 = real_of_int m1 * 2 powi e0 - x"
      using u by (simp add: field_simps)
    finally show ?thesis .
  qed
  ultimately have err: "\<bar>real_of_int m1 * 2 powi e0 - x\<bar> \<le> 2 powi e0 / 2"
    by simp
  from m1 err rr show ?thesis
    unfolding x_def e0_def by blast
qed

lemma round_ratio_error:
  assumes "0 \<le> p" and "0 < q" and "round_ratio p q = Some (m, e)"
  shows "0 \<le> m \<and>
    \<bar>real_of_int m * 2 powi e - real_of_int p / real_of_int q\<bar>
      \<le> (real_of_int p / real_of_int q) / 2 ^ 53 + 1 / 2 ^ 1075"
proof (cases "p = 0")
  case True
  with assms(3) show ?thesis
    by (simp add: round_ratio_def)
next
  case False
  with assms(1) have p: "0 < p"
    by simp
  define x where "x = real_of_int p / real_of_int q"
  define lg where "lg = floor_log2 p q"
  define e0 where "e0 = max (lg - 52) (- 1074)"
  from round_ratio_shape [OF p assms(2)] obtain m1
    where m1: "0 \<le> m1"
      and err: "\<bar>real_of_int m1 * 2 powi e0 - x\<bar> \<le> 2 powi e0 / 2"
      and rr: "round_ratio p q =
        (if 971 < (if m1 = pow2 53 then e0 + 1 else e0) then None
         else Some (if m1 = pow2 53 then pow2 52 else m1, if m1 = pow2 53 then e0 + 1 else e0))"
    unfolding x_def e0_def lg_def by blast
  define e1 where "e1 = (if m1 = pow2 53 then e0 + 1 else e0)"
  define mm where "mm = (if m1 = pow2 53 then pow2 52 else m1)"
  from rr have "Some (m, e) = (if 971 < e1 then None else Some (mm, e1))"
    by (simp only: assms(3) e1_def mm_def)
  then have "m = mm \<and> e = e1"
    by (cases "971 < e1") simp_all
  then have res: "m = (if m1 = pow2 53 then pow2 52 else m1)"
    "e = (if m1 = pow2 53 then e0 + 1 else e0)"
    by (simp_all add: mm_def e1_def)
  have m: "0 \<le> m"
    using m1 pow2_pos [of 52] by (simp add: res)
  have same: "real_of_int m * 2 powi e = real_of_int m1 * 2 powi e0"
  proof (cases "m1 = pow2 53")
    case True
    have "real_of_int (pow2 52) * 2 powi (e0 + 1) = real_of_int (pow2 53) * 2 powi e0"
      by (simp add: pow2_def power_int_add)
    with True show ?thesis
      by (simp add: res)
  next
    case False
    then show ?thesis
      by (simp add: res)
  qed
  have "(2::real) powi e0 \<le> 2 powi (lg - 52) + 2 powi (- 1074)"
  proof (cases "lg - 52 \<le> - 1074")
    case True
    then have "e0 = - 1074"
      by (simp add: e0_def)
    then show ?thesis
      by simp
  next
    case False
    then have "e0 = lg - 52"
      by (simp add: e0_def)
    then show ?thesis
      by simp
  qed
  moreover have "(2::real) powi (lg - 52) \<le> x / 2 ^ 52"
  proof -
    have "(2::real) powi (lg - 52) = 2 powi lg / 2 ^ 52"
      by (simp add: power_int_diff)
    also have "\<dots> \<le> x / 2 ^ 52"
      using floor_log2_le [OF p assms(2)] by (simp add: lg_def x_def divide_right_mono)
    finally show ?thesis .
  qed
  moreover have "(2::real) powi (- 1074) = 1 / 2 ^ 1074"
    by (simp add: power_int_minus_divide)
  ultimately have "(2::real) powi e0 / 2 \<le> x / 2 ^ 53 + 1 / 2 ^ 1075"
    by simp
  with err have "\<bar>real_of_int m1 * 2 powi e0 - x\<bar> \<le> x / 2 ^ 53 + 1 / 2 ^ 1075"
    by linarith
  with m same show ?thesis
    by (simp add: x_def)
qed

lemma round_ratio_overflow:
  assumes "0 \<le> p" and "0 < q" and "round_ratio p q = None"
  shows "2 ^ 1024 - 2 ^ 970 \<le> real_of_int p / real_of_int q"
proof -
  from assms(3) have "p \<noteq> 0"
    by (auto simp: round_ratio_def)
  with assms(1) have p: "0 < p"
    by simp
  define x where "x = real_of_int p / real_of_int q"
  define lg where "lg = floor_log2 p q"
  define e0 where "e0 = max (lg - 52) (- 1074)"
  from round_ratio_shape [OF p assms(2)] obtain m1
    where m1: "0 \<le> m1"
      and err: "\<bar>real_of_int m1 * 2 powi e0 - x\<bar> \<le> 2 powi e0 / 2"
      and rr: "round_ratio p q =
        (if 971 < (if m1 = pow2 53 then e0 + 1 else e0) then None
         else Some (if m1 = pow2 53 then pow2 52 else m1, if m1 = pow2 53 then e0 + 1 else e0))"
    unfolding x_def e0_def lg_def by blast
  from rr assms(3) have big: "971 < (if m1 = pow2 53 then e0 + 1 else e0)"
    by (simp split: if_splits)
  have lgx: "2 powi lg \<le> x"
    using floor_log2_le [OF p assms(2)] by (simp add: lg_def x_def)
  show ?thesis
  proof (cases "m1 = pow2 53")
    case True
    with big have e: "971 \<le> e0"
      by simp
    then have "(2::real) powi 971 \<le> 2 powi e0"
      by (intro power_int_increasing) simp_all
    then have low: "(2::real) ^ 971 \<le> 2 powi e0"
      by simp
    from err have "real_of_int m1 * 2 powi e0 - 2 powi e0 / 2 \<le> x"
      by linarith
    moreover have "real_of_int m1 * 2 powi e0 - 2 powi e0 / 2 = (2 ^ 53 - 1 / 2) * 2 powi e0"
      by (simp add: True pow2_def algebra_simps)
    moreover have "(2 ^ 53 - 1 / 2) * (2::real) ^ 971 \<le> (2 ^ 53 - 1 / 2) * 2 powi e0"
      using low by (intro mult_left_mono) simp_all
    moreover have "(2 ^ 53 - 1 / 2) * (2::real) ^ 971 = 2 ^ 1024 - 2 ^ 970"
      by simp
    ultimately have "2 ^ 1024 - 2 ^ 970 \<le> x"
      by linarith
    then show ?thesis
      by (simp add: x_def)
  next
    case False
    with big have "971 < e0"
      by simp
    then have "1024 \<le> lg"
      by (simp add: e0_def)
    then have "(2::real) powi 1024 \<le> 2 powi lg"
      by (intro power_int_increasing) simp_all
    with lgx have "(2::real) ^ 1024 \<le> x"
      by simp
    then show ?thesis
      by (simp add: x_def)
  qed
qed

lemma foldl_digits_nonneg:
  "0 \<le> a \<Longrightarrow> list_all is_digit ds \<Longrightarrow>
     0 \<le> foldl (\<lambda>a c. 10 * a + (of_char c - 48)) (a::int) ds"
  by (induction ds arbitrary: a) (simp_all add: is_digit_def)

lemma digits_val_nonneg: "list_all is_digit ds \<Longrightarrow> 0 \<le> digits_val ds"
  by (simp add: digits_val_def foldl_digits_nonneg)

lemma list_all_takeWhile: "list_all P (takeWhile P xs)"
  by (induction xs) simp_all

lemma parse_number_nonneg:
  assumes "parse_number s = Some (neg, n, k)"
  shows "0 \<le> n"
proof -
  obtain b s1 where ts: "take_sign s = (b, s1)"
    by (cases "take_sign s")
  define ip where "ip = takeWhile is_digit s1"
  define s2 where "s2 = dropWhile is_digit s1"
  define fp where "fp = (case s2 of [] \<Rightarrow> [] | c # r \<Rightarrow> if c = CHR ''.'' then takeWhile is_digit r else [])"
  have "list_all is_digit ip"
    by (simp add: ip_def list_all_takeWhile)
  moreover have "list_all is_digit fp"
    by (simp add: fp_def list_all_takeWhile split: list.split)
  ultimately have "0 \<le> digits_val (ip @ fp)"
    by (simp add: digits_val_nonneg)
  moreover from assms have "n = digits_val (ip @ fp)"
    by (simp add: parse_number_def ts Let_def ip_def s2_def fp_def split: if_splits option.splits)
  ultimately show ?thesis
    by simp
qed

lemma float_of_str_nonneg:
  assumes "float_of_str t = Some (Finite neg m e)"
  shows "0 \<le> m"
proof -
  define s2 where "s2 = filter (\<lambda>c. c \<noteq> CHR ''_'') (strip t)"
  from assms have ok: "underscores_ok (CHR 0x00) (strip t)"
    by (simp add: float_of_str_def Let_def split: if_splits)
  show ?thesis
  proof (cases "parse_number s2")
    case None
    with assms ok have "parse_inf_or_nan s2 = Some (Finite neg m e)"
      by (simp add: float_of_str_def Let_def s2_def)
    then show ?thesis
      by (simp add: parse_inf_or_nan_def Let_def split: prod.splits if_splits)
  next
    case (Some a)
    obtain b n k where a: "a = (b, n, k)"
      by (cases a)
    from Some a have n: "0 \<le> n"
      using parse_number_nonneg by simp
    from assms ok Some a have "float_of_decimal b n k = Finite neg m e"
      by (simp add: float_of_str_def Let_def s2_def)
    then have "round_ratio (n * pow10 k) (pow10 (- k)) = Some (m, e)"
      by (auto simp: float_of_decimal_def float_of_ratio_def split: option.splits prod.splits)
    moreover have "0 \<le> n * pow10 k" and "0 < pow10 (- k)"
      using n by (simp_all add: pow10_def)
    ultimately show ?thesis
      using round_ratio_error by blast
  qed
qed

lemma float_mul_error:
  assumes "0 \<le> m1" and "0 \<le> m2"
    and "float_mul (Finite a m1 e1) (Finite b m2 e2) = Finite s m e"
  shows "\<bar>valof (Finite s m e) - valof (Finite a m1 e1) * valof (Finite b m2 e2)\<bar>
    \<le> \<bar>valof (Finite a m1 e1) * valof (Finite b m2 e2)\<bar> / 2 ^ 53 + 1 / 2 ^ 1075"
proof -
  define p where "p = m1 * m2 * pow2 (e1 + e2)"
  define q where "q = pow2 (- (e1 + e2))"
  define x where "x = real_of_int p / real_of_int q"
  have p: "0 \<le> p" and q: "0 < q"
    using assms(1,2) pow2_pos [of "e1 + e2"] pow2_pos [of "- (e1 + e2)"]
    by (simp_all add: p_def q_def)
  from assms(3) have rr: "round_ratio p q = Some (m, e)" and s: "s = (a \<noteq> b)"
    by (auto simp: float_of_ratio_def p_def q_def split: option.splits prod.splits)
  have x: "x = (real_of_int m1 * 2 powi e1) * (real_of_int m2 * 2 powi e2)"
  proof -
    have "x = real_of_int m1 * real_of_int m2 * (real_of_int (pow2 (e1 + e2)) / real_of_int (pow2 (- (e1 + e2))))"
      by (simp add: x_def p_def q_def)
    also have "\<dots> = real_of_int m1 * real_of_int m2 * 2 powi (e1 + e2)"
      by (simp only: pow2_powi)
    finally show ?thesis
      by (simp add: power_int_add)
  qed
  have x0: "0 \<le> x"
    using p q by (simp add: x_def)
  from round_ratio_error [OF p q rr]
  have err: "\<bar>real_of_int m * 2 powi e - x\<bar> \<le> x / 2 ^ 53 + 1 / 2 ^ 1075"
    by (simp add: x_def)
  define sg :: real where "sg = (if s then - 1 else 1)"
  have prod: "valof (Finite a m1 e1) * valof (Finite b m2 e2) = sg * x"
    by (simp add: valof_def x sg_def s)
  have res: "valof (Finite s m e) = sg * (real_of_int m * 2 powi e)"
    by (simp add: valof_def sg_def)
  have sg: "\<bar>sg\<bar> = 1"
    by (simp add: sg_def)
  have "\<bar>valof (Finite s m e) - valof (Finite a m1 e1) * valof (Finite b m2 e2)\<bar>
      = \<bar>sg * (real_of_int m * 2 powi e - x)\<bar>"
    by (simp only: prod res right_diff_distrib)
  also have "\<dots> = \<bar>real_of_int m * 2 powi e - x\<bar>"
    by (simp only: abs_mult sg mult_1)
  finally have 1: "\<bar>valof (Finite s m e) - valof (Finite a m1 e1) * valof (Finite b m2 e2)\<bar>
      = \<bar>real_of_int m * 2 powi e - x\<bar>" .
  have "\<bar>valof (Finite a m1 e1) * valof (Finite b m2 e2)\<bar> = \<bar>sg\<bar> * \<bar>x\<bar>"
    by (simp only: prod abs_mult)
  then have 2: "\<bar>valof (Finite a m1 e1) * valof (Finite b m2 e2)\<bar> = x"
    using x0 by (simp add: sg)
  show ?thesis
    using err by (simp only: 1 2)
qed

lemma float_mul_overflow:
  assumes "0 \<le> m1" and "0 \<le> m2"
    and "\<not> is_finite (float_mul (Finite a m1 e1) (Finite b m2 e2))"
  shows "2 ^ 1024 - 2 ^ 970 \<le> \<bar>valof (Finite a m1 e1) * valof (Finite b m2 e2)\<bar>"
proof -
  define p where "p = m1 * m2 * pow2 (e1 + e2)"
  define q where "q = pow2 (- (e1 + e2))"
  have p: "0 \<le> p" and q: "0 < q"
    using assms(1,2) pow2_pos [of "e1 + e2"] pow2_pos [of "- (e1 + e2)"]
    by (simp_all add: p_def q_def)
  from assms(3) have "round_ratio p q = None"
    by (auto simp: float_of_ratio_def is_finite_def p_def q_def split: option.splits prod.splits)
  then have big: "2 ^ 1024 - 2 ^ 970 \<le> real_of_int p / real_of_int q"
    using p q by (intro round_ratio_overflow)
  have "real_of_int p / real_of_int q
      = real_of_int m1 * real_of_int m2
        * (real_of_int (pow2 (e1 + e2)) / real_of_int (pow2 (- (e1 + e2))))"
    by (simp add: p_def q_def)
  also have "\<dots> = real_of_int m1 * real_of_int m2 * 2 powi (e1 + e2)"
    by (simp only: pow2_powi)
  also have "\<dots> = (real_of_int m1 * 2 powi e1) * (real_of_int m2 * 2 powi e2)"
    by (simp add: power_int_add)
  also have "\<dots> = \<bar>valof (Finite a m1 e1) * valof (Finite b m2 e2)\<bar>"
    using assms(1,2) by (simp add: valof_def abs_mult)
  finally show ?thesis
    using big by simp
qed

lemma mile_km_value: "mile_km = Finite False 7247841038710944 (- 52)"
  by code_simp

lemma mile_km_close: "\<bar>valof mile_km - 1.609344\<bar> \<le> 1.609344 / 2 ^ 53"
  by (simp add: mile_km_value valof_def)

lemma km_error:
  assumes "float_of_str t = Some mi" and "is_finite (float_mul mi mile_km)"
  shows "\<bar>valof (float_mul mi mile_km) - valof mi * 1.609344\<bar>
    \<le> \<bar>valof mi * 1.609344\<bar> / 2 ^ 51 + 1 / 2 ^ 1075"
proof -
  from assms(2) obtain a m1 e1 where mi: "mi = Finite a m1 e1"
    by (cases mi) (simp_all add: mile_km_value is_finite_def)
  from assms(2) obtain s m e where km: "float_mul mi mile_km = Finite s m e"
    by (cases "float_mul mi mile_km") (simp_all add: is_finite_def)
  have m1: "0 \<le> m1"
    using assms(1) float_of_str_nonneg by (simp add: mi)
  define v where "v = valof mi"
  define c where "c = valof mile_km"
  have km': "float_mul (Finite a m1 e1) (Finite False 7247841038710944 (- 52)) = Finite s m e"
    using km unfolding mi mile_km_value .
  have e: "\<bar>valof (Finite s m e)
      - valof (Finite a m1 e1) * valof (Finite False 7247841038710944 (- 52))\<bar>
    \<le> \<bar>valof (Finite a m1 e1) * valof (Finite False 7247841038710944 (- 52))\<bar> / 2 ^ 53
      + 1 / 2 ^ 1075"
    using m1 km' by (intro float_mul_error) simp_all
  have 1: "\<bar>valof (float_mul mi mile_km) - v * c\<bar> \<le> \<bar>v * c\<bar> / 2 ^ 53 + 1 / 2 ^ 1075"
    unfolding v_def c_def km unfolding mi mile_km_value by (rule e)
  have 2: "\<bar>c - 1.609344\<bar> \<le> 1.609344 / 2 ^ 53"
    unfolding c_def by (rule mile_km_close)
  have c0: "0 \<le> c" and c1: "c \<le> 1.609344 * (1 + 1 / 2 ^ 53)"
    using 2 by (simp_all add: abs_if split: if_splits)
  have 3: "\<bar>v * c\<bar> \<le> \<bar>v\<bar> * (1.609344 * (1 + 1 / 2 ^ 53))"
  proof -
    have "\<bar>v * c\<bar> = \<bar>v\<bar> * c"
      using c0 by (simp add: abs_mult)
    also have "\<dots> \<le> \<bar>v\<bar> * (1.609344 * (1 + 1 / 2 ^ 53))"
      by (rule mult_left_mono [OF c1]) simp
    finally show ?thesis .
  qed
  have 4: "\<bar>v * c - v * 1.609344\<bar> \<le> \<bar>v\<bar> * (1.609344 / 2 ^ 53)"
  proof -
    have "\<bar>v * c - v * 1.609344\<bar> = \<bar>v\<bar> * \<bar>c - 1.609344\<bar>"
      by (simp only: right_diff_distrib [symmetric] abs_mult)
    also have "\<dots> \<le> \<bar>v\<bar> * (1.609344 / 2 ^ 53)"
      by (rule mult_left_mono [OF 2]) simp
    finally show ?thesis .
  qed
  have "\<bar>valof (float_mul mi mile_km) - v * 1.609344\<bar>
      \<le> \<bar>valof (float_mul mi mile_km) - v * c\<bar> + \<bar>v * c - v * 1.609344\<bar>"
    using abs_triangle_ineq [of "valof (float_mul mi mile_km) - v * c" "v * c - v * 1.609344"]
    by simp
  also have "\<dots> \<le> \<bar>v\<bar> * (1.609344 * (1 + 1 / 2 ^ 53)) / 2 ^ 53 + 1 / 2 ^ 1075
      + \<bar>v\<bar> * (1.609344 / 2 ^ 53)"
    using 1 3 4 by (simp add: divide_right_mono add_mono)
  also have "\<dots> \<le> \<bar>v * 1.609344\<bar> / 2 ^ 51 + 1 / 2 ^ 1075"
  proof -
    have "\<bar>v\<bar> * (1.609344 * (1 + 1 / 2 ^ 53)) / 2 ^ 53 + \<bar>v\<bar> * (1.609344 / 2 ^ 53)
        = \<bar>v\<bar> * (1.609344 * (1 + 1 / 2 ^ 53) / 2 ^ 53 + 1.609344 / 2 ^ 53)"
      by (simp add: algebra_simps)
    also have "\<dots> \<le> \<bar>v\<bar> * (1.609344 / 2 ^ 51)"
      by (intro mult_left_mono) simp_all
    also have "\<dots> = \<bar>v * 1.609344\<bar> / 2 ^ 51"
      by (simp add: abs_mult)
    finally show ?thesis
      by simp
  qed
  finally show ?thesis
    by (simp only: v_def)
qed

lemma km_overflow:
  assumes "float_of_str t = Some mi" and "is_finite mi"
    and "\<not> is_finite (float_mul mi mile_km)"
  shows "2 ^ 1024 - 2 ^ 972 \<le> \<bar>valof mi * 1.609344\<bar>"
proof -
  from assms(2) obtain a m1 e1 where mi: "mi = Finite a m1 e1"
    by (cases mi) (simp_all add: is_finite_def)
  have m1: "0 \<le> m1"
    using assms(1) float_of_str_nonneg by (simp add: mi)
  define v where "v = valof mi"
  define c where "c = valof mile_km"
  have "2 ^ 1024 - 2 ^ 970
      \<le> \<bar>valof (Finite a m1 e1) * valof (Finite False 7247841038710944 (- 52))\<bar>"
    using m1 assms(3) by (intro float_mul_overflow) (simp_all add: mi mile_km_value)
  then have 1: "2 ^ 1024 - 2 ^ 970 \<le> \<bar>v * c\<bar>"
    by (simp only: v_def c_def mi mile_km_value)
  have 2: "\<bar>c - 1.609344\<bar> \<le> 1.609344 / 2 ^ 53"
    unfolding c_def by (rule mile_km_close)
  have c0: "0 \<le> c" and c1: "c \<le> 1.609344 * (1 + 1 / 2 ^ 53)"
    using 2 by (simp_all add: abs_if split: if_splits)
  have "\<bar>v * c\<bar> = \<bar>v\<bar> * c"
    using c0 by (simp add: abs_mult)
  also have "\<dots> \<le> \<bar>v\<bar> * (1.609344 * (1 + 1 / 2 ^ 53))"
    by (rule mult_left_mono [OF c1]) simp
  also have "\<dots> = \<bar>v * 1.609344\<bar> * (1 + 1 / 2 ^ 53)"
    by (simp add: abs_mult)
  finally have "2 ^ 1024 - 2 ^ 970 \<le> \<bar>v * 1.609344\<bar> * (1 + 1 / 2 ^ 53)"
    using 1 by linarith
  then have "2 ^ 1024 - 2 ^ 972 \<le> \<bar>v * 1.609344\<bar>"
    by (simp add: field_simps)
  then show ?thesis
    by (simp only: v_def)
qed

section \<open>Binding a station\<close>

text \<open>
  C8. For every station code, \<open>set_location\<close> stores the URL
  \<open>https://w1.weather.gov/xml/current_obs/<code>.xml\<close> and issues exactly one GET, for that
  URL, whatever the network answers and whatever the state was.
\<close>

theorem set_location_url:
  "weather_observation_url (fst (snd (set_location ev code (w, wld))))
     = Some (''https://w1.weather.gov/xml/current_obs/'' @ code @ ''.xml'')
   \<and> requested (snd (snd (set_location ev code (w, wld))))
     = requested wld @ [''https://w1.weather.gov/xml/current_obs/'' @ code @ ''.xml'']"
  by (simp add: set_location_def read_weather_observation_def station_url_def print_def Let_def
      split: http_outcome.split exn.split option.split)


text \<open>
  C1, as the code has it. A \<open>set_location\<close> that raises leaves \<open>root\<close>, the parsed tree, as it
  was, and with it the result of every accessor: the tree is replaced only by a call that
  returns normally. The attributes \<open>_location\<close> and \<open>weather_observation_url\<close> are assigned
  before the fetch, so after a failed call they are those of the new code.
\<close>

theorem failed_set_location_keeps_tree:
  assumes "set_location ev code (w, wld) = (r, w', wld')"
  shows "(isl r \<longrightarrow> root w' = root w \<and> (\<forall>a. read_accessor a w' = read_accessor a w))
    \<and> (root w' \<noteq> root w \<longrightarrow> r = Inr ())
    \<and> u_location w' = Some code
    \<and> weather_observation_url w' = Some (station_url code)"
proof -
  have keep: "root w' = root w" if "isl r"
    using that assms set_location_failed_root [of ev code "(w, wld)"] by simp
  have "r = Inr ()" if "root w' \<noteq> root w"
    using that keep by (cases r) auto
  moreover have "u_location w' = Some code \<and> weather_observation_url w' = Some (station_url code)"
    using assms set_location_fields [of ev code "(w, wld)"] by simp
  ultimately show ?thesis
    using keep read_accessor_root [of w' w] by simp
qed

theorem failed_set_location_keeps_tree_witness:
  "isl (Inl TypeError :: exn + unit)
   \<and> root (klnk\<lparr>u_location := Some ''KOMA'',
        weather_observation_url := Some ''https://w1.weather.gov/xml/current_obs/KOMA.xml'',
        weather_observation_raw := None\<rparr>) = root klnk
   \<and> (\<forall>a. read_accessor a (klnk\<lparr>u_location := Some ''KOMA'',
        weather_observation_url := Some ''https://w1.weather.gov/xml/current_obs/KOMA.xml'',
        weather_observation_raw := None\<rparr>) = read_accessor a klnk)
   \<and> root klnk \<noteq> root fresh
   \<and> fst (set_location (example_env (serves 200 klnk_body)) ''KLNK'' (fresh, quiet)) = Inr ()"
proof -
  have changed: "root klnk \<noteq> root fresh"
    by (simp add: klnk_def fresh_def)
  have "fst (set_location (example_env (serves 200 klnk_body)) ''KLNK'' (fresh, quiet)) = Inr ()"
    by (simp only: bind_example fst_conv)
  with changed failed_set_location_keeps_tree [OF failed_bind_example]
    failed_set_location_keeps_tree [OF bind_example]
  show ?thesis
    by (simp add: station_url_def)
qed

text \<open>
  C1 as stated fails: bound to KLNK, the object is asked for KOMA and the fetch returns 404.
  The call raises, and the object the caller holds has the new location and URL, no raw text,
  and the old tree.
\<close>

theorem failed_bind_changes_state:
  "fst (set_location (example_env (serves 404 ''Not Found'')) ''KOMA'' (klnk, quiet))
     = Inl TypeError
   \<and> fst (snd (set_location (example_env (serves 404 ''Not Found'')) ''KOMA'' (klnk, quiet)))
     = \<lparr>u_location = Some ''KOMA'',
        weather_observation_url = Some ''https://w1.weather.gov/xml/current_obs/KOMA.xml'',
        weather_observation_raw = None, root = Some klnk_doc\<rparr>
   \<and> fst (snd (set_location (example_env (serves 404 ''Not Found'')) ''KOMA'' (klnk, quiet)))
     \<noteq> klnk"
  unfolding failed_bind_example by (simp add: klnk_def)

text \<open>
  C9. When the fetch answers 200 with a body that \<open>ET.fromstring\<close> rejects, \<open>set_location\<close>
  raises \<open>ParseError\<close>; the raw text is stored and the tree is left as it was (no empty tree
  is put in its place). A failed fetch ends in a different exception, \<open>TypeError\<close>.
\<close>

theorem malformed_body_ParseError:
  assumes "requests_get ev (station_url code) = Response 200 body"
    and "ET_fromstring ev body = None"
  shows "fst (set_location ev code (w, wld)) = Inl ParseError
    \<and> root (fst (snd (set_location ev code (w, wld)))) = root w
    \<and> weather_observation_raw (fst (snd (set_location ev code (w, wld)))) = Some body
    \<and> (\<forall>ev'. fst (read_weather_observation ev' (station_url code) wld) = Inr None
          \<longrightarrow> fst (set_location ev' code (w, wld)) = Inl TypeError)
    \<and> exn_class ParseError \<noteq> exn_class TypeError"
proof -
  have "set_location ev code (w, wld) =
     (Inl ParseError,
      w\<lparr>u_location := Some code, weather_observation_url := Some (station_url code),
        weather_observation_raw := Some body\<rparr>,
      wld\<lparr>requested := requested wld @ [station_url code]\<rparr>)"
    using assms set_location_parse_error [of ev code body w wld] by simp
  then show ?thesis
    by (simp add: set_location_fetch_failed)
qed

theorem malformed_body_ParseError_witness:
  "fst (set_location (example_env (serves 200 ''<html><body>Not Found'')) ''KLNK'' (fresh, quiet))
     = Inl ParseError
   \<and> root (fst (snd (set_location (example_env (serves 200 ''<html><body>Not Found'')) ''KLNK''
        (fresh, quiet)))) = None
   \<and> fst (set_location (example_env (serves 404 ''Not Found'')) ''KLNK'' (fresh, quiet))
     = Inl TypeError"
proof -
  have 1: "requests_get (example_env (serves 200 ''<html><body>Not Found'')) (station_url ''KLNK'')
      = Response 200 ''<html><body>Not Found''"
    by (simp add: example_env_def serves_def)
  have 2: "ET_fromstring (example_env (serves 200 ''<html><body>Not Found'')) ''<html><body>Not Found''
      = None"
    by (simp add: example_env_def klnk_body_def kodd_body_def)
  have 3: "fst (read_weather_observation (example_env (serves 404 ''Not Found''))
      (station_url ''KLNK'') quiet) = Inr None"
    by (simp add: read_weather_observation_def example_env_def serves_def Let_def)
  from malformed_body_ParseError [OF 1 2, of fresh quiet] 3 show ?thesis
    by (simp add: fresh_def)
qed

section \<open>Fetching\<close>

text \<open>
  C3, as the code has it. \<open>read_weather_observation\<close> returns the body exactly when the
  response has status 200. For any other status, and for any \<open>RequestException\<close>, it returns
  \<open>None\<close> and no exception leaves the method; the status code or the fault's description is
  printed to standard output and is not part of what is returned.
\<close>

theorem read_weather_observation_failure:
  "(\<forall>st body. requests_get ev url = Response st body \<and> st \<noteq> 200 \<longrightarrow>
      read_weather_observation ev url wld =
        (Inr None,
         \<lparr>stdout = stdout wld @ [''Failed to retrieve data. Status code: '' @ str_int st],
          requested = requested wld @ [url]\<rparr>))
   \<and> (\<forall>m. requests_get ev url = Raises (RequestException m) \<longrightarrow>
      read_weather_observation ev url wld =
        (Inr None,
         \<lparr>stdout = stdout wld @ [''An error occurred: '' @ m],
          requested = requested wld @ [url]\<rparr>))
   \<and> (\<forall>body. fst (read_weather_observation ev url wld) = Inr (Some body)
        \<longleftrightarrow> requests_get ev url = Response 200 body)"
  by (simp add: read_weather_observation_cases split: http_outcome.split exn.split)

theorem read_weather_observation_failure_witness:
  "read_weather_observation (example_env (serves 404 ''Not Found''))
      ''https://w1.weather.gov/xml/current_obs/KLNK.xml'' quiet =
     (Inr None,
      \<lparr>stdout = [''Failed to retrieve data. Status code: 404''],
       requested = [''https://w1.weather.gov/xml/current_obs/KLNK.xml'']\<rparr>)
   \<and> read_weather_observation (example_env (\<lambda>url. Raises (RequestException ''timed out'')))
      ''https://w1.weather.gov/xml/current_obs/KLNK.xml'' quiet =
     (Inr None,
      \<lparr>stdout = [''An error occurred: timed out''],
       requested = [''https://w1.weather.gov/xml/current_obs/KLNK.xml'']\<rparr>)"
proof -
  have s: "str_int 404 = ''404''"
    by code_simp
  have 1: "requests_get (example_env (serves 404 ''Not Found''))
      ''https://w1.weather.gov/xml/current_obs/KLNK.xml'' = Response 404 ''Not Found'' \<and> (404::int) \<noteq> 200"
    by (simp add: example_env_def serves_def)
  have 2: "requests_get (example_env (\<lambda>url. Raises (RequestException ''timed out'')))
      ''https://w1.weather.gov/xml/current_obs/KLNK.xml'' = Raises (RequestException ''timed out'')"
    by (simp add: example_env_def)
  from 1 2
    read_weather_observation_failure [of "example_env (serves 404 ''Not Found'')"
      "''https://w1.weather.gov/xml/current_obs/KLNK.xml''" quiet]
    read_weather_observation_failure [of "example_env (\<lambda>url. Raises (RequestException ''timed out''))"
      "''https://w1.weather.gov/xml/current_obs/KLNK.xml''" quiet]
  show ?thesis
    by (simp add: s quiet_def)
qed

text \<open>
  C3 as stated fails: the value returned after a 404 and after a 500 is the same \<open>None\<close>, so
  the result carries neither status code.
\<close>

theorem fetch_result_carries_no_status:
  "fst (read_weather_observation (example_env (serves 404 ''Not Found''))
      ''https://w1.weather.gov/xml/current_obs/KLNK.xml'' quiet) = Inr None
   \<and> fst (read_weather_observation (example_env (serves 500 ''Server Error''))
      ''https://w1.weather.gov/xml/current_obs/KLNK.xml'' quiet) = Inr None"
  by (simp add: read_weather_observation_def example_env_def serves_def Let_def)

section \<open>Reading the fields\<close>

text \<open>
  C2, as the code has it. An object made by \<open>Weather()\<close> (or with an empty location), on
  which every \<open>set_location\<close> tried since has raised, has no attribute \<open>root\<close>: each accessor
  raises \<open>AttributeError\<close> for it and none returns a value.
\<close>

theorem unbound_accessor_raises_AttributeError:
  assumes "Weather_init ev0 loc wld0 = (Inr w0, wld1)"
    and "loc = None \<or> loc = Some []"
    and "list_all isl (fst (set_locations cs (w0, wld1)))"
  shows "read_accessor a (fst (snd (set_locations cs (w0, wld1)))) = Inl (AttributeError ''root'')"
proof -
  from assms(1,2) have "w0 = fresh"
    by (auto simp: Weather_init_def fresh_def)
  then have "root w0 = None"
    by (simp add: fresh_def)
  with assms(3) have "root (fst (snd (set_locations cs (w0, wld1)))) = None"
    using set_locations_failed_root [of cs "(w0, wld1)"] by simp
  then show ?thesis
    by (rule read_accessor_unbound)
qed

theorem unbound_accessor_raises_AttributeError_witness:
  "read_accessor P_temperature
     (fst (snd (set_locations [(example_env (serves 404 ''Not Found''), ''KLNK'')] (fresh, quiet))))
   = Inl (AttributeError ''root'')"
proof -
  have 1: "Weather_init (example_env (serves 200 klnk_body)) None quiet = (Inr fresh, quiet)"
    by (simp add: Weather_init_def fresh_def)
  have 2: "list_all isl
     (fst (set_locations [(example_env (serves 404 ''Not Found''), ''KLNK'')] (fresh, quiet)))"
    by code_simp
  from unbound_accessor_raises_AttributeError [OF 1 _ 2] show ?thesis
    by simp
qed

text \<open>
  C2 as stated fails: the exception an unbound object raises is a plain \<open>AttributeError\<close>, not
  a \<open>NotBoundError\<close>, and it is of the same class as the one a bound object raises for a
  missing element.
\<close>

theorem unbound_error_is_AttributeError:
  "map_sum exn_class id (read_accessor P_temperature fresh) = Inl ''AttributeError''
   \<and> map_sum exn_class id (read_accessor P_temperature fresh) \<noteq> Inl ''NotBoundError''
   \<and> map_sum exn_class id (read_accessor P_dewpoint kodd) = Inl ''AttributeError''"
proof -
  have 1: "read_accessor P_temperature fresh = Inl (AttributeError ''root'')"
    by (rule read_accessor_unbound) (simp add: fresh_def)
  have 2: "read_accessor P_dewpoint kodd = Inl (AttributeError ''text'')"
    by code_simp
  show ?thesis
    unfolding 1 2 by simp
qed


text \<open>
  C4, as the code has it. On a bound object, an accessor that calls \<open>float\<close> raises exactly
  when one of the elements it reads is absent, has no text or has a text that is no float
  literal, and then it raises what the first such element gives: \<open>AttributeError\<close>,
  \<open>TypeError\<close> or \<open>ValueError\<close>; otherwise it returns a string. \<open>relative_humidity\<close> never
  calls \<open>float\<close>: it raises for an absent element and for one without text, and returns any
  text with \<open>%\<close> appended.
\<close>

theorem numeric_accessor_errors:
  assumes "root w = Some r"
    and "a \<in> {P_temperature, P_dewpoint, P_pressure, P_altimeter, P_visibility}"
  shows "(\<forall>e. read_accessor a w = Inl e \<longleftrightarrow> first_error r (numeric_fields a) = Some e)
    \<and> ((\<exists>s. read_accessor a w = Inr (Some s)) \<longleftrightarrow> first_error r (numeric_fields a) = None)
    \<and> relative_humidity w =
        (case find_el r ''relative_humidity'' of
           None \<Rightarrow> Inl (AttributeError ''text'')
         | Some el \<Rightarrow>
             (case el_text el of None \<Rightarrow> Inl TypeError | Some t \<Rightarrow> Inr (t @ ''%'')))"
proof -
  note f = field_float_error [OF assms(1)]
  have rh: "relative_humidity w =
        (case find_el r ''relative_humidity'' of
           None \<Rightarrow> Inl (AttributeError ''text'')
         | Some el \<Rightarrow>
             (case el_text el of None \<Rightarrow> Inl TypeError | Some t \<Rightarrow> Inr (t @ ''%'')))"
    using assms(1) by (simp add: relative_humidity_def field_text_def split: option.split)
  from assms(2) consider "a = P_temperature" | "a = P_dewpoint" | "a = P_pressure"
    | "a = P_altimeter" | "a = P_visibility"
    by auto
  then have "(\<forall>e. read_accessor a w = Inl e \<longleftrightarrow> first_error r (numeric_fields a) = Some e)
    \<and> ((\<exists>s. read_accessor a w = Inr (Some s)) \<longleftrightarrow> first_error r (numeric_fields a) = None)"
  proof cases
    case 1
    then show ?thesis
      by (simp add: temperature_def numeric_fields_def f split: option.split)
  next
    case 2
    then show ?thesis
      by (simp add: dewpoint_def numeric_fields_def f split: option.split)
  next
    case 3
    then show ?thesis
      by (simp add: pressure_def numeric_fields_def f split: option.split)
  next
    case 4
    then show ?thesis
      by (simp add: altimeter_def numeric_fields_def f split: option.split)
  next
    case 5
    then show ?thesis
      by (simp add: visibility_def numeric_fields_def f Let_def split: option.split)
  qed
  with rh show ?thesis
    by simp
qed

theorem numeric_accessor_errors_witness:
  "read_accessor P_pressure kodd = Inl ValueError
   \<and> read_accessor P_altimeter kodd = Inl TypeError
   \<and> read_accessor P_dewpoint kodd = Inl (AttributeError ''text'')
   \<and> (\<exists>s. read_accessor P_temperature kodd = Inr (Some s))"
proof -
  have r: "root kodd = Some kodd_doc"
    by (simp add: kodd_def)
  have 1: "first_error kodd_doc (numeric_fields P_pressure) = Some ValueError"
    by code_simp
  have 2: "first_error kodd_doc (numeric_fields P_altimeter) = Some TypeError"
    by code_simp
  have 3: "first_error kodd_doc (numeric_fields P_dewpoint) = Some (AttributeError ''text'')"
    by code_simp
  have 4: "first_error kodd_doc (numeric_fields P_temperature) = None"
    by code_simp
  from numeric_accessor_errors [OF r, of P_pressure] numeric_accessor_errors [OF r, of P_altimeter]
    numeric_accessor_errors [OF r, of P_dewpoint] numeric_accessor_errors [OF r, of P_temperature]
    1 2 3 4
  show ?thesis
    by simp
qed

text \<open>
  C4 as stated fails: the element \<open>relative_humidity\<close> is present with the text \<open>abc\<close>, which
  is no number, and the accessor returns \<open>abc%\<close>.
\<close>

theorem relative_humidity_not_checked:
  "field_text kodd ''relative_humidity'' = Inr (Some ''abc'')
   \<and> float_of_str ''abc'' = None
   \<and> read_accessor P_relative_humidity kodd = Inr (Some ''abc%'')"
  by code_simp

text \<open>
  C5, as the code has it. \<open>temperature\<close> prints \<open>repr\<close> of the float read from \<open>temp_f\<close>, the
  degree sign and \<open>F\<close>, then in brackets the same for \<open>temp_c\<close> with \<open>C\<close>. The texts \<open>72.0\<close> and
  \<open>22.2\<close> are the \<open>repr\<close> of the floats they denote, so for them the result is
  \<open>72.0\<degree>F (22.2\<degree>C)\<close>.
\<close>

theorem temperature_format:
  assumes "root w = Some r"
    and "find_el r ''temp_f'' = Some ef" and "el_text ef = Some tf" and "float_of_str tf = Some f"
    and "find_el r ''temp_c'' = Some ec" and "el_text ec = Some tc" and "float_of_str tc = Some c"
  shows "temperature w = Inr (float_repr f @ degree @ ''F ('' @ float_repr c @ degree @ ''C)'')
    \<and> (tf = ''72.0'' \<and> tc = ''22.2'' \<longrightarrow>
         temperature w = Inr (''72.0'' @ [CHR 0xB0] @ ''F (22.2'' @ [CHR 0xB0] @ ''C)''))"
proof -
  have 1: "field_float w ''temp_f'' = Inr f"
    using assms(1-4) by (rule field_float_value)
  have 2: "field_float w ''temp_c'' = Inr c"
    using assms(1,5-7) by (rule field_float_value)
  have g: "temperature w = Inr (float_repr f @ degree @ ''F ('' @ float_repr c @ degree @ ''C)'')"
    by (simp add: temperature_def 1 2)
  have "temperature w = Inr (''72.0'' @ [CHR 0xB0] @ ''F (22.2'' @ [CHR 0xB0] @ ''C)'')"
    if "tf = ''72.0''" and "tc = ''22.2''"
  proof -
    from that assms(4,7) have "f = Finite False 5066549580791808 (- 46)"
      and "c = Finite False 6248744482976563 (- 48)"
      by (simp_all add: float_72 float_22)
    then show ?thesis
      by (simp add: g repr_72 repr_22 degree_def)
  qed
  with g show ?thesis
    by blast
qed

theorem temperature_format_witness:
  "temperature klnk = Inr (''72.0'' @ [CHR 0xB0] @ ''F (22.2'' @ [CHR 0xB0] @ ''C)'')"
proof -
  have r: "root klnk = Some klnk_doc"
    by (simp add: klnk_def)
  have 1: "find_el klnk_doc ''temp_f'' = Some (leaf ''temp_f'' ''72.0'')"
    by code_simp
  have 2: "find_el klnk_doc ''temp_c'' = Some (leaf ''temp_c'' ''22.2'')"
    by code_simp
  have 3: "el_text (leaf ''temp_f'' ''72.0'') = Some ''72.0''"
    and 4: "el_text (leaf ''temp_c'' ''22.2'') = Some ''22.2''"
    by (simp_all add: leaf_def)
  from temperature_format [OF r 1 3 float_72 2 4 float_22] show ?thesis
    by blast
qed

text \<open>
  C5 as stated fails in its general part: the text \<open>72\<close> is not passed through as given, it
  is printed as \<open>72.0\<close>.
\<close>

theorem temperature_reformats:
  "field_text kodd ''temp_f'' = Inr (Some ''72'')
   \<and> field_text kodd ''temp_c'' = Inr (Some ''22.2'')
   \<and> temperature kodd = Inr (''72.0'' @ [CHR 0xB0] @ ''F (22.2'' @ [CHR 0xB0] @ ''C)'')
   \<and> temperature kodd \<noteq> Inr (''72'' @ [CHR 0xB0] @ ''F (22.2'' @ [CHR 0xB0] @ ''C)'')"
proof -
  have 1: "field_text kodd ''temp_f'' = Inr (Some ''72'')"
    and 2: "field_text kodd ''temp_c'' = Inr (Some ''22.2'')"
    by code_simp+
  have 3: "temperature kodd = Inr (''72.0'' @ [CHR 0xB0] @ ''F (22.2'' @ [CHR 0xB0] @ ''C)'')"
    by code_simp
  show ?thesis
    unfolding 1 2 3 by simp
qed

text \<open>
  C7. \<open>dewpoint\<close> prints the Celsius value first and the Fahrenheit value in brackets, while
  \<open>temperature\<close> prints Fahrenheit first and Celsius in brackets.
\<close>

theorem dewpoint_format:
  assumes "root w = Some r"
    and "find_el r ''dewpoint_c'' = Some ec" and "el_text ec = Some tc"
    and "float_of_str tc = Some c"
    and "find_el r ''dewpoint_f'' = Some ef" and "el_text ef = Some tf"
    and "float_of_str tf = Some f"
  shows "dewpoint w = Inr (float_repr c @ [CHR 0xB0] @ ''C ('' @ float_repr f @ [CHR 0xB0] @ ''F)'')
    \<and> (\<forall>x y. field_float w ''temp_f'' = Inr x \<and> field_float w ''temp_c'' = Inr y \<longrightarrow>
          temperature w = Inr (float_repr x @ [CHR 0xB0] @ ''F ('' @ float_repr y @ [CHR 0xB0] @ ''C)''))"
proof -
  have 1: "field_float w ''dewpoint_c'' = Inr c"
    using assms(1-4) by (rule field_float_value)
  have 2: "field_float w ''dewpoint_f'' = Inr f"
    using assms(1,5-7) by (rule field_float_value)
  show ?thesis
    by (simp add: dewpoint_def temperature_def degree_def 1 2)
qed

theorem dewpoint_format_witness:
  "dewpoint klnk = Inr (''9.4'' @ [CHR 0xB0] @ ''C (49.0'' @ [CHR 0xB0] @ ''F)'')
   \<and> temperature klnk = Inr (''72.0'' @ [CHR 0xB0] @ ''F (22.2'' @ [CHR 0xB0] @ ''C)'')"
proof -
  have r: "root klnk = Some klnk_doc"
    by (simp add: klnk_def)
  have 1: "find_el klnk_doc ''dewpoint_c'' = Some (leaf ''dewpoint_c'' ''9.4'')"
    by code_simp
  have 2: "find_el klnk_doc ''dewpoint_f'' = Some (leaf ''dewpoint_f'' ''49.0'')"
    by code_simp
  have 3: "el_text (leaf ''dewpoint_c'' ''9.4'') = Some ''9.4''"
    and 4: "el_text (leaf ''dewpoint_f'' ''49.0'') = Some ''49.0''"
    by (simp_all add: leaf_def)
  have 5: "float_of_str ''9.4'' = Some (Finite False 5291729562160333 (- 49))"
    by code_simp
  have 6: "float_of_str ''49.0'' = Some (Finite False 6896136929411072 (- 47))"
    by code_simp
  have 7: "float_repr (Finite False 5291729562160333 (- 49)) = ''9.4''"
    by code_simp
  have 8: "float_repr (Finite False 6896136929411072 (- 47)) = ''49.0''"
    by code_simp
  have 9: "field_float klnk ''temp_f'' = Inr (Finite False 5066549580791808 (- 46))"
    by code_simp
  have 10: "field_float klnk ''temp_c'' = Inr (Finite False 6248744482976563 (- 48))"
    by code_simp
  from dewpoint_format [OF r 1 3 5 2 4 6] 9 10 show ?thesis
    by (simp add: 7 8 repr_72 repr_22)
qed

text \<open>
  C6. \<open>visibility\<close> prints the miles read from \<open>visibility_mi\<close> and, in brackets, the
  kilometres: the float product of the miles and the literal \<open>1.609344\<close>. Whenever that
  product is finite it differs from the exact product of the miles and 1.609344 by at most
  the relative error \<open>2^-51\<close> (plus \<open>2^-1075\<close> in the subnormal range); for finite miles it
  is not finite only when the exact product is beyond the range of a double.
\<close>

theorem visibility_km:
  assumes "root w = Some r"
    and "find_el r ''visibility_mi'' = Some el" and "el_text el = Some t"
    and "float_of_str t = Some mi"
  shows "visibility w
      = Inr (float_repr mi @ '' mi ('' @ float_repr (float_mul mi mile_km) @ '' km)'')
    \<and> (is_finite (float_mul mi mile_km) \<longrightarrow>
         \<bar>valof (float_mul mi mile_km) - valof mi * 1.609344\<bar>
           \<le> \<bar>valof mi * 1.609344\<bar> / 2 ^ 51 + 1 / 2 ^ 1075)
    \<and> (is_finite mi \<and> \<not> is_finite (float_mul mi mile_km) \<longrightarrow>
         2 ^ 1024 - 2 ^ 972 \<le> \<bar>valof mi * 1.609344\<bar>)"
proof -
  have "field_float w ''visibility_mi'' = Inr mi"
    using assms by (rule field_float_value)
  then have "visibility w
      = Inr (float_repr mi @ '' mi ('' @ float_repr (float_mul mi mile_km) @ '' km)'')"
    by (simp add: visibility_def Let_def)
  with km_error [OF assms(4)] km_overflow [OF assms(4)] show ?thesis
    by blast
qed

theorem visibility_km_witness:
  "visibility klnk = Inr ''10.0 mi (16.09344 km)''
   \<and> \<bar>valof (Finite False 4529900649194340 (- 48)) - 10 * 1.609344\<bar>
       \<le> \<bar>10 * 1.609344\<bar> / 2 ^ 51 + 1 / 2 ^ 1075
   \<and> visibility kodd = Inr ''1.5e+308 mi (inf km)''
   \<and> 2 ^ 1024 - 2 ^ 972 \<le> \<bar>valof (Finite False 7515631350033648 971) * 1.609344\<bar>"
proof -
  have far: "visibility kodd = Inr ''1.5e+308 mi (inf km)''
    \<and> 2 ^ 1024 - 2 ^ 972 \<le> \<bar>valof (Finite False 7515631350033648 971) * 1.609344\<bar>"
  proof -
    have r: "root kodd = Some kodd_doc"
      by (simp add: kodd_def)
    have 1: "find_el kodd_doc ''visibility_mi'' = Some (leaf ''visibility_mi'' ''1.5e308'')"
      by code_simp
    have 2: "el_text (leaf ''visibility_mi'' ''1.5e308'') = Some ''1.5e308''"
      by (simp add: leaf_def)
    have 3: "float_of_str ''1.5e308'' = Some (Finite False 7515631350033648 971)"
      by code_simp
    have 4: "float_mul (Finite False 7515631350033648 971) mile_km = Infinity False"
      by code_simp
    have 5: "float_repr (Finite False 7515631350033648 971) = ''1.5e+308''"
      by code_simp
    have 6: "float_repr (Infinity False) = ''inf''"
      by code_simp
    from visibility_km [OF r 1 2 3] show ?thesis
      unfolding 4 5 6 by (simp add: is_finite_def)
  qed
  have r: "root klnk = Some klnk_doc"
    by (simp add: klnk_def)
  have 1: "find_el klnk_doc ''visibility_mi'' = Some (leaf ''visibility_mi'' ''10.00'')"
    by code_simp
  have 2: "el_text (leaf ''visibility_mi'' ''10.00'') = Some ''10.00''"
    by (simp add: leaf_def)
  have 3: "float_of_str ''10.00'' = Some (Finite False 5629499534213120 (- 49))"
    by code_simp
  have 4: "float_mul (Finite False 5629499534213120 (- 49)) mile_km
      = Finite False 4529900649194340 (- 48)"
    by code_simp
  have 5: "float_repr (Finite False 5629499534213120 (- 49)) = ''10.0''"
    by code_simp
  have 6: "float_repr (Finite False 4529900649194340 (- 48)) = ''16.09344''"
    by code_simp
  have 7: "valof (Finite False 5629499534213120 (- 49)) = 10"
    by (simp add: valof_def)
  have 8: "is_finite (Finite False 4529900649194340 (- 48))"
    by (simp add: is_finite_def)
  from visibility_km [OF r 1 2 3] far show ?thesis
    unfolding 4 5 6 7 using 8 by simp
qed

end
